theory Spec2Isabelle
  imports Complex_Main
begin

section \<open>Strings\<close>

text \<open>
  Python strings are modelled as HOL strings (lists of characters with code points
  below 256).  The newline character is written \<open>CHR 0x0A\<close>.
\<close>

definition NL :: string where
  "NL = [CHR 0x0A]"

text \<open>\<^verbatim>\<open>s.replace(old, new)\<close> for one-character arguments, as in
  \<^verbatim>\<open>.replace(os.sep, '/')\<close>.\<close>

definition replace_char :: "char \<Rightarrow> char \<Rightarrow> string \<Rightarrow> string" where
  "replace_char old new s = map (\<lambda>c. if c = old then new else c) s"

text \<open>\<^verbatim>\<open>s.lstrip(chars)\<close>: drops the longest prefix made of characters of \<open>chars\<close>.\<close>

definition lstrip_chars :: "string \<Rightarrow> string \<Rightarrow> string" where
  "lstrip_chars chars s = dropWhile (\<lambda>c. c \<in> set chars) s"

section \<open>Figure fragments: \<^verbatim>\<open>figure_rst\<close> (gen_rst.py)\<close>

text \<open>The three templates of gen_rst.py; the \<^verbatim>\<open>%s\<close> hole is the argument.\<close>

definition HLIST_HEADER :: string where
  "HLIST_HEADER = NL @ ''.. rst-class:: sphx-glr-horizontal'' @ NL @ NL"

definition HLIST_IMAGE_TEMPLATE :: "string \<Rightarrow> string" where
  "HLIST_IMAGE_TEMPLATE name =
     NL @ ''    *'' @ NL @ NL @ ''      .. image:: /'' @ name @ NL
        @ ''            :class: sphx-glr-multi-img'' @ NL"

definition SINGLE_IMAGE :: "string \<Rightarrow> string" where
  "SINGLE_IMAGE name =
     NL @ ''.. image:: /'' @ name @ NL @ ''    :class: sphx-glr-single-img'' @ NL"

text \<open>
  \<^verbatim>\<open>os.path.relpath\<close> and \<^verbatim>\<open>os.sep\<close> belong to the platform's path library; they are
  parameters of the model (\<open>relpath\<close>, \<open>sep\<close>), so that everything proved holds on every
  platform.  \<open>figure_path\<close> is the list comprehension's body.
\<close>

definition figure_path :: "(string \<Rightarrow> string \<Rightarrow> string) \<Rightarrow> char \<Rightarrow> string \<Rightarrow> string \<Rightarrow> string" where
  "figure_path relpath sep sources_dir fp =
     lstrip_chars ''/'' (replace_char sep (CHR ''/'') (relpath fp sources_dir))"

text \<open>The loop \<^verbatim>\<open>for figure_name in figure_paths: images_rst += ...\<close>.\<close>

fun hlist_loop :: "string \<Rightarrow> string list \<Rightarrow> string" where
  "hlist_loop images_rst [] = images_rst"
| "hlist_loop images_rst (figure_name # rest) =
     hlist_loop (images_rst @ HLIST_IMAGE_TEMPLATE figure_name) rest"

definition figure_rst ::
  "(string \<Rightarrow> string \<Rightarrow> string) \<Rightarrow> char \<Rightarrow> string list \<Rightarrow> string \<Rightarrow> string \<times> nat" where
  "figure_rst relpath sep figure_list sources_dir =
     (let figure_paths = map (figure_path relpath sep sources_dir) figure_list;
          images_rst =
            (if length figure_paths = 1 then SINGLE_IMAGE (figure_paths ! 0)
             else if length figure_paths > 1 then hlist_loop HLIST_HEADER figure_paths
             else '''')
      in (images_rst, length figure_list))"

section \<open>Properties of \<^verbatim>\<open>figure_rst\<close>\<close>

lemma hlist_loop_concat:
  "hlist_loop acc ps = acc @ concat (map HLIST_IMAGE_TEMPLATE ps)"
  by (induction ps arbitrary: acc) simp_all

lemma figure_path_no_leading_slash:
  "\<not> (\<exists>r. figure_path relpath sep sources_dir fp = CHR ''/'' # r)"
proof
  assume "\<exists>r. figure_path relpath sep sources_dir fp = CHR ''/'' # r"
  then obtain r where r: "figure_path relpath sep sources_dir fp = CHR ''/'' # r" ..
  let ?s = "replace_char sep (CHR ''/'') (relpath fp sources_dir)"
  have "dropWhile (\<lambda>c. c \<in> set ''/'') ?s = CHR ''/'' # r"
    using r by (simp add: figure_path_def lstrip_chars_def)
  then have "hd (dropWhile (\<lambda>c. c \<in> set ''/'') ?s) = CHR ''/''"
    and "dropWhile (\<lambda>c. c \<in> set ''/'') ?s \<noteq> []" by simp_all
  then show False
    using hd_dropWhile [of "\<lambda>c. c \<in> set ''/''" ?s] by simp
qed

lemma figure_path_no_sep:
  assumes "sep \<noteq> CHR ''/''"
  shows "sep \<notin> set (figure_path relpath sep sources_dir fp)"
proof -
  have "sep \<notin> set (replace_char sep (CHR ''/'') (relpath fp sources_dir))"
    using assms by (auto simp: replace_char_def)
  then show ?thesis
    unfolding figure_path_def lstrip_chars_def
    using set_dropWhileD by fastforce
qed

text \<open>A sample path library for concrete runs: paths below \<open>start\<close> lose that prefix
  and the separator after it.\<close>

definition demo_relpath :: "string \<Rightarrow> string \<Rightarrow> string" where
  "demo_relpath p start = drop (Suc (length start)) p"

text \<open>
  Claim C7.  For a list of \<open>N\<close> figure paths \<^verbatim>\<open>figure_rst\<close> returns the empty fragment
  when \<open>N = 0\<close>; when \<open>N = 1\<close> the single-image directive, which is a newline, the line
  \<^verbatim>\<open>.. image:: /<path>\<close> and the line of its class; and when \<open>N > 1\<close> the header of the
  horizontal list followed by one list entry per figure, in the order of the list, each entry
  holding the line \<^verbatim>\<open>.. image:: /<path>\<close> of its figure.  The returned count is \<open>N\<close>.  The
  path emitted for a figure is the path relative to the sources directory, with every
  platform separator replaced by a forward slash and all leading slashes dropped: it never
  starts with a slash, and when the platform separator is not the forward slash it does not
  occur in the path.  The texts are written out character by character, the newline as
  \<open>CHR 0x0A\<close>.
\<close>

theorem figure_rst_fragment:
  "figure_rst relpath sep figure_list sources_dir =
     ((case map (\<lambda>fp. dropWhile (\<lambda>c. c = CHR ''/'')
                      (map (\<lambda>c. if c = sep then CHR ''/'' else c) (relpath fp sources_dir)))
                figure_list of
         [] \<Rightarrow> []
       | [p] \<Rightarrow>
           [CHR 0x0A] @ ''.. image:: /'' @ p @ [CHR 0x0A]
           @ ''    :class: sphx-glr-single-img'' @ [CHR 0x0A]
       | p # q # ps \<Rightarrow>
           [CHR 0x0A] @ ''.. rst-class:: sphx-glr-horizontal'' @ [CHR 0x0A, CHR 0x0A]
           @ concat (map (\<lambda>name. [CHR 0x0A] @ ''    *'' @ [CHR 0x0A, CHR 0x0A]
                              @ ''      .. image:: /'' @ name @ [CHR 0x0A]
                              @ ''            :class: sphx-glr-multi-img'' @ [CHR 0x0A])
                        (p # q # ps))),
      length figure_list)
   \<and> (\<forall>fp \<in> set figure_list.
         figure_path relpath sep sources_dir fp
           = dropWhile (\<lambda>c. c = CHR ''/'')
               (map (\<lambda>c. if c = sep then CHR ''/'' else c) (relpath fp sources_dir))
       \<and> (\<forall>r. figure_path relpath sep sources_dir fp \<noteq> CHR ''/'' # r)
       \<and> (sep \<noteq> CHR ''/'' \<longrightarrow> sep \<notin> set (figure_path relpath sep sources_dir fp)))"
proof -
  have path: "figure_path relpath sep sources_dir
      = (\<lambda>fp. dropWhile (\<lambda>c. c = CHR ''/'')
               (map (\<lambda>c. if c = sep then CHR ''/'' else c) (relpath fp sources_dir)))"
    by (rule ext) (simp add: figure_path_def lstrip_chars_def replace_char_def)
  have entry: "HLIST_IMAGE_TEMPLATE
      = (\<lambda>name. [CHR 0x0A] @ ''    *'' @ [CHR 0x0A, CHR 0x0A]
                              @ ''      .. image:: /'' @ name @ [CHR 0x0A]
                              @ ''            :class: sphx-glr-multi-img'' @ [CHR 0x0A])"
    by (rule ext) (simp add: HLIST_IMAGE_TEMPLATE_def NL_def)
  have "figure_rst relpath sep figure_list sources_dir =
     ((case map (figure_path relpath sep sources_dir) figure_list of
         [] \<Rightarrow> []
       | [p] \<Rightarrow> SINGLE_IMAGE p
       | p # q # ps \<Rightarrow> HLIST_HEADER @ concat (map HLIST_IMAGE_TEMPLATE (p # q # ps))),
      length figure_list)"
  proof (cases figure_list)
    case Nil
    then show ?thesis by (simp add: figure_rst_def)
  next
    case (Cons a as)
    then show ?thesis
      by (cases as) (simp_all add: figure_rst_def hlist_loop_concat)
  qed
  then have "figure_rst relpath sep figure_list sources_dir =
     ((case map (\<lambda>fp. dropWhile (\<lambda>c. c = CHR ''/'')
                      (map (\<lambda>c. if c = sep then CHR ''/'' else c) (relpath fp sources_dir)))
                figure_list of
         [] \<Rightarrow> []
       | [p] \<Rightarrow>
           [CHR 0x0A] @ ''.. image:: /'' @ p @ [CHR 0x0A]
           @ ''    :class: sphx-glr-single-img'' @ [CHR 0x0A]
       | p # q # ps \<Rightarrow>
           [CHR 0x0A] @ ''.. rst-class:: sphx-glr-horizontal'' @ [CHR 0x0A, CHR 0x0A]
           @ concat (map (\<lambda>name. [CHR 0x0A] @ ''    *'' @ [CHR 0x0A, CHR 0x0A]
                              @ ''      .. image:: /'' @ name @ [CHR 0x0A]
                              @ ''            :class: sphx-glr-multi-img'' @ [CHR 0x0A])
                        (p # q # ps))),
      length figure_list)"
    unfolding path entry by (simp add: SINGLE_IMAGE_def HLIST_HEADER_def NL_def split: list.splits)
  moreover have "\<forall>fp \<in> set figure_list.
         figure_path relpath sep sources_dir fp
           = dropWhile (\<lambda>c. c = CHR ''/'')
               (map (\<lambda>c. if c = sep then CHR ''/'' else c) (relpath fp sources_dir))
       \<and> (\<forall>r. figure_path relpath sep sources_dir fp \<noteq> CHR ''/'' # r)
       \<and> (sep \<noteq> CHR ''/'' \<longrightarrow> sep \<notin> set (figure_path relpath sep sources_dir fp))"
    using figure_path_no_leading_slash figure_path_no_sep path by metis
  ultimately show ?thesis by blast
qed

theorem figure_rst_fragment_witness:
  "figure_rst demo_relpath (CHR 0x5C)
       [''/doc'' @ [CHR 0x5C] @ ''auto'' @ [CHR 0x5C] @ ''a_001.png'',
        ''/doc'' @ [CHR 0x5C] @ ''auto'' @ [CHR 0x5C] @ ''a_002.png''] ''/doc''
     = ([CHR 0x0A] @ ''.. rst-class:: sphx-glr-horizontal'' @ [CHR 0x0A, CHR 0x0A]
          @ [CHR 0x0A] @ ''    *'' @ [CHR 0x0A, CHR 0x0A]
          @ ''      .. image:: /auto/a_001.png'' @ [CHR 0x0A]
          @ ''            :class: sphx-glr-multi-img'' @ [CHR 0x0A]
          @ [CHR 0x0A] @ ''    *'' @ [CHR 0x0A, CHR 0x0A]
          @ ''      .. image:: /auto/a_002.png'' @ [CHR 0x0A]
          @ ''            :class: sphx-glr-multi-img'' @ [CHR 0x0A], 2)
   \<and> figure_rst demo_relpath (CHR ''/'') [''/doc/auto/a_001.png''] ''/doc''
     = ([CHR 0x0A] @ ''.. image:: /auto/a_001.png'' @ [CHR 0x0A]
          @ ''    :class: sphx-glr-single-img'' @ [CHR 0x0A], 1)
   \<and> figure_path demo_relpath (CHR 0x5C) ''/doc''
        (''/doc'' @ [CHR 0x5C] @ ''auto'' @ [CHR 0x5C] @ ''a_001.png'') = ''auto/a_001.png''
   \<and> CHR 0x5C \<notin> set (figure_path demo_relpath (CHR 0x5C) ''/doc''
        (''/doc'' @ [CHR 0x5C] @ ''auto'' @ [CHR 0x5C] @ ''a_001.png''))"
  using figure_rst_fragment [of demo_relpath "CHR 0x5C"
      "[''/doc'' @ [CHR 0x5C] @ ''auto'' @ [CHR 0x5C] @ ''a_001.png'',
        ''/doc'' @ [CHR 0x5C] @ ''auto'' @ [CHR 0x5C] @ ''a_002.png'']" "''/doc''"]
    figure_rst_fragment [of demo_relpath "CHR ''/''" "[''/doc/auto/a_001.png'']" "''/doc''"]
  by (simp add: demo_relpath_def)

section \<open>More string operations\<close>

text \<open>
  Whitespace as \<^verbatim>\<open>str.isspace\<close>, \<^verbatim>\<open>str.strip\<close> and the regular expression class
  \<^verbatim>\<open>\s\<close> see it, for code points below 256.
\<close>

definition whitespace :: string where
  "whitespace = [CHR 0x09, CHR 0x0A, CHR 0x0B, CHR 0x0C, CHR 0x0D, CHR 0x1C, CHR 0x1D,
                 CHR 0x1E, CHR 0x1F, CHR 0x20, CHR 0x85, CHR 0xA0]"

definition isspace :: "char \<Rightarrow> bool" where
  "isspace c = (c \<in> set whitespace)"

definition lstrip :: "string \<Rightarrow> string" where
  "lstrip s = dropWhile isspace s"

definition rstrip :: "string \<Rightarrow> string" where
  "rstrip s = rev (dropWhile isspace (rev s))"

definition strip :: "string \<Rightarrow> string" where
  "strip s = rstrip (lstrip s)"

definition count_char :: "char \<Rightarrow> string \<Rightarrow> nat" where
  "count_char c s = length (filter (\<lambda>x. x = c) s)"

text \<open>
  Formatting of integers: \<^verbatim>\<open>'{0}'.format(n)\<close> is \<open>decimal\<close>, the format specification
  \<^verbatim>\<open>03\<close> is \<open>format_03\<close> (sign-aware zero padding to width 3), and
  \<open>format_template\<close> is \<^verbatim>\<open>template.format(n)\<close> for a template whose only replacement
  fields are \<^verbatim>\<open>{0:03}\<close>, as built in \<^verbatim>\<open>generate_file_rst\<close>.
\<close>

definition digit :: "nat \<Rightarrow> char" where
  "digit d = ''0123456789'' ! d"

function decimal :: "nat \<Rightarrow> string" where
  "decimal n = (if n < 10 then [digit n] else decimal (n div 10) @ [digit (n mod 10)])"
  by pat_completeness auto
termination
  by (relation "measure id") auto

declare decimal.simps [simp del]

definition zfill :: "nat \<Rightarrow> string \<Rightarrow> string" where
  "zfill width s = replicate (width - length s) (CHR ''0'') @ s"

definition format_03 :: "int \<Rightarrow> string" where
  "format_03 n =
     (if n < 0 then ''-'' @ zfill 2 (decimal (nat (- n))) else zfill 3 (decimal (nat n)))"

fun format_template :: "string \<Rightarrow> int \<Rightarrow> string" where
  "format_template [] n = []"
| "format_template (c # cs) n =
     (if take 6 (c # cs) = ''{0:03}'' then format_03 n @ format_template (drop 5 cs) n
      else c # format_template cs n)"

section \<open>Images and \<^verbatim>\<open>scale_image\<close> (gen_rst.py)\<close>

text \<open>
  Exceptions of the modelled code are values of type \<open>error\<close>.
\<close>

datatype error =
    IOError string
  | ZeroDivisionError
  | NameError string
  | ValueError string
  | TypeError string
  | SyntaxError string
  | IndexError
  | FileNotFoundError string
  | UnicodeDecodeError

text \<open>
  An image is the term of PIL operations that produced it: a decoded picture, a resized
  image, or a white canvas of a given size with an image pasted at a position.  Only the
  size is interpreted.
\<close>

datatype image =
    Picture nat nat string
  | Resized image nat nat
  | Canvas nat nat image int int

fun image_size :: "image \<Rightarrow> nat \<times> nat" where
  "image_size (Picture w h d) = (w, h)"
| "image_size (Resized img w h) = (w, h)"
| "image_size (Canvas w h img x y) = (w, h)"

text \<open>
  \<^verbatim>\<open>round\<close> rounds to the nearest integer, halves to the even neighbour.  Floating-point
  numbers are modelled by the reals they denote.
\<close>

definition py_round :: "real \<Rightarrow> int" where
  "py_round x =
     (let f = \<lfloor>x\<rfloor>; d = x - of_int f
      in if d < 1 / 2 then f
         else if 1 / 2 < d then f + 1
         else if even f then f else f + 1)"

text \<open>
  \<^verbatim>\<open>scale_image(in_fname, out_fname, max_width, max_height)\<close> over the image files
  \<open>imgs\<close>.  Opening a missing file raises \<open>IOError\<close>; a division by a zero width or
  height raises \<open>ZeroDivisionError\<close>.
\<close>

definition scale_image ::
  "(string \<rightharpoonup> image) \<Rightarrow> string \<Rightarrow> string \<Rightarrow> nat \<Rightarrow> nat \<Rightarrow> error + (string \<rightharpoonup> image)" where
  "scale_image imgs in_fname out_fname max_width max_height =
     (case imgs in_fname of
        None \<Rightarrow> Inl (IOError in_fname)
      | Some img \<Rightarrow>
          (case image_size img of (width_in, height_in) \<Rightarrow>
             if width_in = 0 \<or> height_in = 0 then Inl ZeroDivisionError
             else
               let scale_w = real max_width / real width_in;
                   scale_h = real max_height / real height_in;
                   scale = (if real height_in * scale_w \<le> real max_height then scale_w else scale_h)
               in if 1 \<le> scale \<and> in_fname = out_fname then Inr imgs
                  else
                    let width_sc = py_round (scale * real width_in);
                        height_sc = py_round (scale * real height_in);
                        img' = Resized img (nat width_sc) (nat height_sc);
                        pos_insert = ((int max_width - width_sc) div 2, (int max_height - height_sc) div 2);
                        thumb = Canvas max_width max_height img' (fst pos_insert) (snd pos_insert)
                    in Inr (imgs(out_fname \<mapsto> thumb))))"
lemma py_round_le:
  assumes "x \<le> of_int n"
  shows "py_round x \<le> n"
proof -
  have fl: "\<lfloor>x\<rfloor> \<le> n" using assms by (simp add: floor_le_iff)
  show ?thesis
  proof (cases "\<lfloor>x\<rfloor> = n")
    case True
    then have "x - of_int \<lfloor>x\<rfloor> \<le> 0" using assms by simp
    then have "x - of_int \<lfloor>x\<rfloor> < 1 / 2" by linarith
    then show ?thesis using True by (simp add: py_round_def Let_def)
  next
    case False
    then have "\<lfloor>x\<rfloor> + 1 \<le> n" using fl by linarith
    then show ?thesis using fl by (simp add: py_round_def Let_def)
  qed
qed

lemma py_round_nonneg:
  assumes "0 \<le> x"
  shows "0 \<le> py_round x"
proof -
  have "0 \<le> \<lfloor>x\<rfloor>" using assms by simp
  then show ?thesis by (simp add: py_round_def Let_def)
qed

lemma scale_image_fits:
  assumes "imgs p = Some img" and "image_size img = (w, h)"
    and "0 < w" and "0 < h" and "w \<le> max_width" and "h \<le> max_height"
  shows "scale_image imgs p p max_width max_height = Inr imgs"
proof -
  have w1: "1 \<le> real max_width / real w" using assms by simp
  have h1: "1 \<le> real max_height / real h" using assms by simp
  show ?thesis using assms w1 h1 by (simp add: scale_image_def Let_def)
qed

lemma scale_image_same_path_cases:
  assumes "scale_image imgs p p max_width max_height = Inr imgs'"
  shows "imgs' = imgs \<or>
         (\<exists>img w h ws hs x y. imgs p = Some img \<and> image_size img = (w, h)
             \<and> imgs' = imgs(p \<mapsto> Canvas max_width max_height (Resized img ws hs) x y)
             \<and> ws \<le> w \<and> hs \<le> h)"
proof -
  from assms obtain img where img: "imgs p = Some img"
    by (auto simp: scale_image_def split: option.splits)
  obtain w h where sz: "image_size img = (w, h)" by (cases "image_size img")
  from assms img sz have pos: "0 < w" "0 < h"
    by (auto simp: scale_image_def Let_def split: if_splits)
  define scale where "scale = (if real h * (real max_width / real w) \<le> real max_height
      then real max_width / real w else real max_height / real h)"
  show ?thesis
  proof (cases "1 \<le> scale")
    case True
    then have "imgs' = imgs" using assms img sz pos
      by (simp add: scale_image_def Let_def scale_def split: if_splits)
    then show ?thesis by simp
  next
    case False
    have nn: "0 \<le> scale" by (simp add: scale_def)
    have "scale * real w \<le> real w" using False nn by (simp add: mult_left_le_one_le)
    then have a: "py_round (scale * real w) \<le> int w" using py_round_le [of "scale * real w" "int w"] by simp
    have "scale * real h \<le> real h" using False nn by (simp add: mult_left_le_one_le)
    then have b: "py_round (scale * real h) \<le> int h" using py_round_le [of "scale * real h" "int h"] by simp
    have "imgs' = imgs(p \<mapsto> Canvas max_width max_height
        (Resized img (nat (py_round (scale * real w))) (nat (py_round (scale * real h))))
        ((int max_width - py_round (scale * real w)) div 2)
        ((int max_height - py_round (scale * real h)) div 2))"
      using assms img sz pos False
      by (simp add: scale_image_def Let_def scale_def split: if_splits)
    moreover have "nat (py_round (scale * real w)) \<le> w" using a by simp
    moreover have "nat (py_round (scale * real h)) \<le> h" using b by simp
    ultimately show ?thesis using img sz by blast
  qed
qed

text \<open>A small image store for concrete runs.\<close>

definition demo_images :: "string \<rightharpoonup> image" where
  "demo_images = [''small.png'' \<mapsto> Picture 200 100 ''a'', ''large.png'' \<mapsto> Picture 800 1120 ''b'']"

text \<open>
  Claim C9.  With identical source and destination path and positive bounds:
  an image that already fits the bounds (in particular one of exactly the target size) is
  left alone, the whole store being returned unchanged; whenever the call does write, the
  pasted content is the source resized to a width and height no larger than its own, so
  the content is never enlarged; and a second call with the same bounds returns the store
  of the first call unchanged.
\<close>

theorem scale_image_idempotent:
  assumes "0 < max_width" and "0 < max_height"
  shows
   "(\<forall>img w h. imgs p = Some img \<and> image_size img = (w, h) \<and> 0 < w \<and> 0 < h
         \<and> w \<le> max_width \<and> h \<le> max_height
       \<longrightarrow> scale_image imgs p p max_width max_height = Inr imgs)
  \<and> (\<forall>imgs'. scale_image imgs p p max_width max_height = Inr imgs' \<longrightarrow>
        (imgs' = imgs \<or>
          (\<exists>img w h ws hs x y. imgs p = Some img \<and> image_size img = (w, h)
             \<and> imgs' = imgs(p \<mapsto> Canvas max_width max_height (Resized img ws hs) x y)
             \<and> ws \<le> w \<and> hs \<le> h))
      \<and> scale_image imgs' p p max_width max_height = Inr imgs')"
proof (intro conjI allI impI)
  fix img w h
  assume "imgs p = Some img \<and> image_size img = (w, h) \<and> 0 < w \<and> 0 < h
         \<and> w \<le> max_width \<and> h \<le> max_height"
  then show "scale_image imgs p p max_width max_height = Inr imgs"
    using scale_image_fits by blast
next
  fix imgs'
  assume r: "scale_image imgs p p max_width max_height = Inr imgs'"
  then show "imgs' = imgs \<or>
          (\<exists>img w h ws hs x y. imgs p = Some img \<and> image_size img = (w, h)
             \<and> imgs' = imgs(p \<mapsto> Canvas max_width max_height (Resized img ws hs) x y)
             \<and> ws \<le> w \<and> hs \<le> h)"
    by (rule scale_image_same_path_cases)
next
  fix imgs'
  assume r: "scale_image imgs p p max_width max_height = Inr imgs'"
  from scale_image_same_path_cases [OF r]
  show "scale_image imgs' p p max_width max_height = Inr imgs'"
  proof
    assume "imgs' = imgs"
    then show ?thesis using r by simp
  next
    assume "\<exists>img w h ws hs x y. imgs p = Some img \<and> image_size img = (w, h)
             \<and> imgs' = imgs(p \<mapsto> Canvas max_width max_height (Resized img ws hs) x y)
             \<and> ws \<le> w \<and> hs \<le> h"
    then obtain c where "imgs' p = Some c" and "image_size c = (max_width, max_height)"
      by auto
    then show ?thesis
      using scale_image_fits [of imgs' p c max_width max_height max_width max_height] assms
      by simp
  qed
qed

theorem scale_image_idempotent_witness:
  "scale_image demo_images ''small.png'' ''small.png'' 400 280 = Inr demo_images
   \<and> scale_image demo_images ''large.png'' ''large.png'' 400 280
     = Inr (demo_images(''large.png'' \<mapsto>
          Canvas 400 280 (Resized (Picture 800 1120 ''b'') 200 280) 100 0))
   \<and> scale_image (demo_images(''large.png'' \<mapsto>
          Canvas 400 280 (Resized (Picture 800 1120 ''b'') 200 280) 100 0))
         ''large.png'' ''large.png'' 400 280
     = Inr (demo_images(''large.png'' \<mapsto>
          Canvas 400 280 (Resized (Picture 800 1120 ''b'') 200 280) 100 0))"
proof -
  have a: "(0::nat) < 400" and b: "(0::nat) < 280" by simp_all
  have small: "demo_images ''small.png'' = Some (Picture 200 100 ''a'')"
    by (simp add: demo_images_def)
  have l: "scale_image demo_images ''large.png'' ''large.png'' 400 280
     = Inr (demo_images(''large.png'' \<mapsto>
          Canvas 400 280 (Resized (Picture 800 1120 ''b'') 200 280) 100 0))"
    by (simp add: scale_image_def demo_images_def py_round_def Let_def)
  from scale_image_idempotent [OF a b, of demo_images "''small.png''"] small
  have "scale_image demo_images ''small.png'' ''small.png'' 400 280 = Inr demo_images"
    by simp
  moreover from scale_image_idempotent [OF a b, of demo_images "''large.png''"] l
  have "scale_image (demo_images(''large.png'' \<mapsto>
          Canvas 400 280 (Resized (Picture 800 1120 ''b'') 200 280) 100 0))
         ''large.png'' ''large.png'' 400 280
     = Inr (demo_images(''large.png'' \<mapsto>
          Canvas 400 280 (Resized (Picture 800 1120 ''b'') 200 280) 100 0))"
    by blast
  ultimately show ?thesis using l by simp
qed

section \<open>Process state, effects and the environment\<close>

text \<open>
  The object bound to \<^verbatim>\<open>sys.stdout\<close> is either some stream of the host process, or the
  \<^verbatim>\<open>LoggingTee\<close> installed for a source file, or an object whose \<^verbatim>\<open>flush\<close> raises (a
  closed file, a tee whose buffer has been closed); the last one carries the message of
  the exception.
\<close>

datatype stream = Stream nat | LoggingTee string | Broken string

text \<open>
  What \<^verbatim>\<open>sys.exc_info()\<close> gives for an exception raised by a block: whether it is an
  instance of \<^verbatim>\<open>Exception\<close> (\<^verbatim>\<open>SystemExit\<close> and \<^verbatim>\<open>KeyboardInterrupt\<close> are not), whether it
  is a \<^verbatim>\<open>SyntaxError\<close>, the formatted frames of its traceback and the formatted exception
  line.
\<close>

record exc_info =
  is_Exception :: bool
  is_SyntaxError :: bool
  stack :: "string list"
  exception_only :: "string list"

datatype failure = Error error | ExampleError exc_info

text \<open>
  The effects of the pipeline itself are recorded in a trace, in order.  \<open>Exec\<close> is
  the execution of one compiled block, followed by \<open>BlockRaised\<close> when the block left by
  an exception; \<open>WriteMd5\<close> is the writing of the md5 sidecar, \<open>WriteRst\<close> the writing
  of the generated document, \<open>SaveThumbnail\<close> a call of \<^verbatim>\<open>scale_image\<close> for the
  thumbnail (source and destination).
\<close>

datatype event =
    CopyFile string string
  | MakeDirs string
  | Exec string nat
  | SaveFig string
  | Warning string
  | WriteMd5 string string
  | WriteRst string string
  | SaveThumbnail string string
  | SaveNotebook string
  | CleanModules
  | BlockRaised string nat

text \<open>
  The state of the process and of the file system: working directory, standard output,
  argument vector, open matplotlib figures (number and rendering, as
  \<^verbatim>\<open>plt.get_fignums()\<close> lists them), mayavi scenes, image files, other files, directories,
  the example's namespace, and the trace.
\<close>

record world =
  cwd :: string
  stdout :: stream
  argv :: "string list"
  figures :: "(nat \<times> image) list"
  scenes :: "image list"
  images :: "string \<rightharpoonup> image"
  files :: "string \<rightharpoonup> string"
  dirs :: "string list"
  namespace :: "string \<rightharpoonup> string"
  trace :: "event list"

text \<open>
  Compiling and running a block either finishes, with the new state, the text written
  to standard output and the elapsed time, or raises.
\<close>

datatype outcome = Finished world string real | Raised exc_info world

record block_vars =
  execute_script :: bool
  fig_count :: nat
  image_path :: string
  src_file :: string

record gallery_conf =
  abort_on_example_error :: bool
  failing_examples :: "string \<rightharpoonup> string"
  find_mayavi_figures :: bool
  src_dir :: string
  plot_gallery :: bool
  filename_pattern :: string
  line_numbers :: bool
  min_reported_time :: real
  thumbnail_size :: "nat \<times> nat"
  default_thumb_file :: "string option"

text \<open>
  What the code takes from Python's library, from the example itself and from the
  modules of the package that are not part of the core: the path functions
  (\<open>os_splitext\<close> is the first component of \<^verbatim>\<open>os.path.splitext\<close>),
  \<^verbatim>\<open>textwrap.indent\<close>, \<^verbatim>\<open>str.expandtabs\<close>, whether the installed Sphinx is at least 1.3,
  the execution of a block (\<^verbatim>\<open>compile\<close> and \<^verbatim>\<open>exec\<close> in the example's namespace; the
  block may change the state in any way, the working directory and the standard output
  included), whether \<^verbatim>\<open>re.search\<close> finds a pattern, the md5 digest of a content in
  hexadecimal, what reading a content in text mode gives (\<open>None\<close> when decoding it raises),
  the outcome of \<^verbatim>\<open>check_binder_conf\<close> (a failure, or whether the checked configuration is
  non-empty), \<^verbatim>\<open>gen_binder_rst\<close>, \<^verbatim>\<open>replace_py_ipynb\<close>, the template \<^verbatim>\<open>CODE_DOWNLOAD\<close>,
  \<^verbatim>\<open>glr_path_static()\<close>, and the text of the running-time line.
\<close>

record platform =
  os_sep :: char
  relpath :: "string \<Rightarrow> string \<Rightarrow> string"
  dirname :: "string \<Rightarrow> string"
  indent :: "string \<Rightarrow> string \<Rightarrow> string"
  expandtabs :: "string \<Rightarrow> string"
  sphinx_ge_1_3 :: bool
  exec_block :: "string \<Rightarrow> nat \<Rightarrow> world \<Rightarrow> outcome"
  os_normpath :: "string \<Rightarrow> string"
  os_join :: "string \<Rightarrow> string \<Rightarrow> string"
  os_splitext :: "string \<Rightarrow> string"
  os_basename :: "string \<Rightarrow> string"
  re_search :: "string \<Rightarrow> string \<Rightarrow> bool"
  md5_hexdigest :: "string \<Rightarrow> string"
  decode_text :: "string \<Rightarrow> string option"
  checked_binder_conf :: "error + bool"
  gen_binder_rst :: "string \<Rightarrow> string"
  replace_py_ipynb :: "string \<Rightarrow> string"
  CODE_DOWNLOAD :: "string \<Rightarrow> string \<Rightarrow> string \<Rightarrow> string"
  glr_path_static :: string
  format_running_time :: "real \<Rightarrow> string"

section \<open>Running a block: \<^verbatim>\<open>execute_code_block\<close> (gen_rst.py)\<close>

definition CODE_OUTPUT :: "string \<Rightarrow> string" where
  "CODE_OUTPUT out =
     ''.. rst-class:: sphx-glr-script-out'' @ NL @ NL @ '' Out::'' @ NL @ NL @ out @ NL"

definition codestr2rst :: "platform \<Rightarrow> string \<Rightarrow> string \<Rightarrow> nat option \<Rightarrow> string" where
  "codestr2rst L codestr lang lineno =
     (let lineno_text =
            (case lineno of
               Some n \<Rightarrow>
                 if sphinx_ge_1_3 L then
                   let k = length (lstrip codestr);
                       blank_lines =
                         count_char (CHR 0x0A) (take (if k = 0 then 0 else length codestr - k) codestr)
                   in ''   :lineno-start: '' @ decimal (n + blank_lines) @ NL
                 else ''   :linenos:'' @ NL
             | None \<Rightarrow> '''');
          code_directive = NL @ ''.. code-block:: '' @ lang @ NL @ lineno_text @ NL;
          indented_block = indent L codestr ''    ''
      in code_directive @ indented_block)"

text \<open>
  \<^verbatim>\<open>save_figures\<close>: the loop over \<^verbatim>\<open>plt.get_fignums()\<close>, then the loop over the mayavi
  scenes.  The colour arguments of \<^verbatim>\<open>savefig\<close> are left out.
\<close>

fun save_matplotlib ::
  "string \<Rightarrow> nat \<Rightarrow> (nat \<times> image) list \<Rightarrow> string list \<Rightarrow> world \<Rightarrow> string list \<times> world" where
  "save_matplotlib image_path' fig_count' [] figure_list w = (figure_list, w)"
| "save_matplotlib image_path' fig_count' ((fig_num, fig) # rest) figure_list w =
     (let current_fig = format_template image_path' (int (fig_count' + fig_num));
          w' = w\<lparr>images := (images w)(current_fig \<mapsto> fig),
                 trace := trace w @ [SaveFig current_fig]\<rparr>
      in save_matplotlib image_path' fig_count' rest (figure_list @ [current_fig]) w')"

fun save_mayavi ::
  "string \<Rightarrow> (image \<times> nat) list \<Rightarrow> string list \<Rightarrow> world \<Rightarrow> (failure + string list) \<times> world" where
  "save_mayavi image_path' [] figure_list w = (Inr figure_list, w)"
| "save_mayavi image_path' ((scene, mayavi_fig_num) # rest) figure_list w =
     (let current_fig = format_template image_path' (int mayavi_fig_num);
          w1 = w\<lparr>images := (images w)(current_fig \<mapsto> scene),
                 trace := trace w @ [SaveFig current_fig]\<rparr>
      in case scale_image (images w1) current_fig current_fig 850 999 of
           Inl e \<Rightarrow> (Inl (Error e), w1)
         | Inr imgs \<Rightarrow>
             save_mayavi image_path' rest (figure_list @ [current_fig]) (w1\<lparr>images := imgs\<rparr>))"

definition save_figures ::
  "platform \<Rightarrow> string \<Rightarrow> nat \<Rightarrow> gallery_conf \<Rightarrow> world \<Rightarrow> (failure + string \<times> nat) \<times> world" where
  "save_figures L image_path' fig_count' conf w =
     (case save_matplotlib image_path' fig_count' (figures w) [] w of
        (figure_list, w1) \<Rightarrow>
          if find_mayavi_figures conf then
            let last_matplotlib_fig_num = fig_count' + length figure_list;
                total_fig_num = last_matplotlib_fig_num + length (scenes w1);
                mayavi_fig_nums = [last_matplotlib_fig_num + 1 ..< total_fig_num + 1]
            in case save_mayavi image_path' (zip (scenes w1) mayavi_fig_nums) figure_list w1 of
                 (Inl e, w2) \<Rightarrow> (Inl e, w2)
               | (Inr figure_list', w2) \<Rightarrow>
                   (Inr (figure_rst (relpath L) (os_sep L) figure_list' (src_dir conf)),
                    w2\<lparr>scenes := []\<rparr>)
          else (Inr (figure_rst (relpath L) (os_sep L) figure_list (src_dir conf)), w1))"

text \<open>
  \<^verbatim>\<open>handle_exception\<close> mutates \<^verbatim>\<open>block_vars\<close> and \<^verbatim>\<open>gallery_conf\<close>; the model returns
  them.  The bare \<^verbatim>\<open>raise\<close> re-raises the exception being handled.
\<close>

definition handle_exception ::
  "platform \<Rightarrow> exc_info \<Rightarrow> string \<Rightarrow> block_vars \<Rightarrow> gallery_conf \<Rightarrow> world
     \<Rightarrow> (failure + string) \<times> block_vars \<times> gallery_conf \<times> world" where
  "handle_exception L exc src block_vars conf w =
     (let stack' = (if is_SyntaxError exc then drop 2 (stack exc) else drop 1 (stack exc));
          formatted_exception =
            ''Traceback (most recent call last):'' @ NL @ concat (stack' @ exception_only exc);
          w1 = w\<lparr>trace := trace w
                  @ [Warning (src @ '' failed to execute correctly: '' @ formatted_exception)]\<rparr>;
          except_rst = codestr2rst L formatted_exception ''pytb'' None
      in if abort_on_example_error conf then (Inl (ExampleError exc), block_vars, conf, w1)
         else (Inr except_rst,
               block_vars\<lparr>execute_script := False\<rparr>,
               conf\<lparr>failing_examples := (failing_examples conf)(src \<mapsto> formatted_exception)\<rparr>,
               w1))"

text \<open>
  \<^verbatim>\<open>os.getcwd()\<close> and \<^verbatim>\<open>os.chdir(path)\<close> raise when the directory is not there (the
  working directory of a process can have been removed); \<^verbatim>\<open>sys.stdout.flush()\<close> raises
  when the stream object is broken.
\<close>

definition getcwd :: "world \<Rightarrow> error + string" where
  "getcwd w = (if cwd w \<in> set (dirs w) then Inr (cwd w) else Inl (FileNotFoundError (cwd w)))"

definition chdir :: "string \<Rightarrow> world \<Rightarrow> error + world" where
  "chdir path w =
     (if path \<in> set (dirs w) then Inr (w\<lparr>cwd := path\<rparr>) else Inl (FileNotFoundError path))"

definition flush :: "stream \<Rightarrow> error option" where
  "flush out = (case out of Broken message \<Rightarrow> Some (ValueError message) | _ \<Rightarrow> None)"

text \<open>
  \<^verbatim>\<open>execute_code_block\<close>.  Its parameter \<^verbatim>\<open>src_file\<close> is overwritten by
  \<^verbatim>\<open>block_vars['src_file']\<close> before its first use and is left out, as are the compiler
  object and the namespace, which is part of the state.  \<open>try_except_else\<close> is the
  \<^verbatim>\<open>try\<close> statement without its \<^verbatim>\<open>finally\<close> clause: the block is compiled and run; an
  \<^verbatim>\<open>Exception\<close> enters the handler, which flushes the stream the block left behind
  before it restores the stream and calls \<^verbatim>\<open>handle_exception\<close>; any other exception
  leaves the statement at once; the \<^verbatim>\<open>else\<close> clause flushes, restores the stream, goes back
  to the start directory and saves the figures.  An exception raised by the handler or by
  the \<^verbatim>\<open>else\<close> clause leaves the statement.  \<open>finally_clause\<close> is the \<^verbatim>\<open>finally\<close> clause,
  which runs in every case: when its \<^verbatim>\<open>os.chdir(cwd)\<close> raises, the assignment to
  \<^verbatim>\<open>sys.stdout\<close> after it is skipped and this exception replaces the outcome of the
  statement.  The trace after the block is the trace before it with the events of the run
  added, whatever the block did.
\<close>

definition try_except_else ::
  "platform \<Rightarrow> string \<Rightarrow> nat \<Rightarrow> string \<Rightarrow> string \<Rightarrow> stream \<Rightarrow> block_vars \<Rightarrow> gallery_conf \<Rightarrow> world
     \<Rightarrow> (failure + string \<times> real) \<times> block_vars \<times> gallery_conf \<times> world" where
  "try_except_else L code_block lineno src cwd0 orig_stdout block_vars conf w1 =
     (case exec_block L code_block lineno w1 of
        Raised exc w2' \<Rightarrow>
          let w2 = w2'\<lparr>trace := trace w1
                       @ [Exec code_block lineno, BlockRaised code_block lineno]\<rparr> in
          if is_Exception exc then
            (case flush (stdout w2) of
               Some e \<Rightarrow> (Inl (Error e), block_vars, conf, w2)
             | None \<Rightarrow>
                 (case handle_exception L exc src block_vars conf (w2\<lparr>stdout := orig_stdout\<rparr>) of
                    (Inl e, block_vars', conf', w3) \<Rightarrow> (Inl e, block_vars', conf', w3)
                  | (Inr except_rst, block_vars', conf', w3) \<Rightarrow>
                      (Inr (NL @ except_rst @ NL @ NL @ NL @ NL, 0), block_vars', conf', w3)))
          else (Inl (ExampleError exc), block_vars, conf, w2)
      | Finished w2' out time_elapsed \<Rightarrow>
          let w2 = w2'\<lparr>trace := trace w1 @ [Exec code_block lineno]\<rparr> in
          (case flush (stdout w2) of
             Some e \<Rightarrow> (Inl (Error e), block_vars, conf, w2)
           | None \<Rightarrow>
               (case chdir cwd0 (w2\<lparr>stdout := orig_stdout\<rparr>) of
                  Inl e \<Rightarrow> (Inl (Error e), block_vars, conf, w2\<lparr>stdout := orig_stdout\<rparr>)
                | Inr w3 \<Rightarrow>
                    let my_stdout = expandtabs L (strip out);
                        stdout_rst = (if my_stdout \<noteq> []
                                      then CODE_OUTPUT (indent L my_stdout ''    '') else '''')
                    in case save_figures L (image_path block_vars) (fig_count block_vars) conf w3 of
                         (Inl e, w4) \<Rightarrow> (Inl e, block_vars, conf, w4)
                       | (Inr (images_rst, fig_num), w4) \<Rightarrow>
                           (Inr (NL @ images_rst @ NL @ NL @ stdout_rst @ NL @ NL, time_elapsed),
                            block_vars\<lparr>fig_count := fig_count block_vars + fig_num\<rparr>, conf,
                            w4))))"

definition finally_clause ::
  "string \<Rightarrow> stream \<Rightarrow> (failure + string \<times> real) \<times> block_vars \<times> gallery_conf \<times> world
     \<Rightarrow> (failure + string \<times> real) \<times> block_vars \<times> gallery_conf \<times> world" where
  "finally_clause cwd0 orig_stdout outcome =
     (case outcome of
        (r, block_vars, conf, w) \<Rightarrow>
          (case chdir cwd0 w of
             Inl e \<Rightarrow> (Inl (Error e), block_vars, conf, w)
           | Inr w' \<Rightarrow> (r, block_vars, conf, w'\<lparr>stdout := orig_stdout\<rparr>)))"

definition execute_code_block ::
  "platform \<Rightarrow> string \<Rightarrow> nat \<Rightarrow> block_vars \<Rightarrow> gallery_conf \<Rightarrow> world
     \<Rightarrow> (failure + string \<times> real) \<times> block_vars \<times> gallery_conf \<times> world" where
  "execute_code_block L code_block lineno block_vars conf w =
     (if \<not> execute_script block_vars then (Inr ('''', 0), block_vars, conf, w)
      else
        let w0 = w\<lparr>figures := []\<rparr> in
        case getcwd w0 of
          Inl e \<Rightarrow> (Inl (Error e), block_vars, conf, w0)
        | Inr cwd0 \<Rightarrow>
            let orig_stdout = stdout w0;
                src = src_file block_vars
            in case chdir (dirname L src) w0 of
                 Inl e \<Rightarrow> (Inl (Error e), block_vars, conf, w0)
               | Inr w0' \<Rightarrow>
                   finally_clause cwd0 orig_stdout
                     (try_except_else L code_block lineno src cwd0 orig_stdout block_vars conf
                        (w0'\<lparr>stdout := LoggingTee src\<rparr>)))"


section \<open>Properties of \<^verbatim>\<open>execute_code_block\<close>\<close>





text \<open>
  A concrete environment: a block \<^verbatim>\<open>1/0\<close> that raises after changing the working
  directory and the standard output, a block that exits the interpreter, a block that
  removes the documentation tree, the start directory included, before it exits, and two
  blocks that leave one open figure each, numbered 2 and 1.  Paths are joined with a slash,
  a pattern is found when the base name starts with it, and the digest of a content is the
  content behind a tag.
\<close>

definition demo_exc :: exc_info where
  "demo_exc = \<lparr>is_Exception = True, is_SyntaxError = False,
      stack = [''  File gen_rst.py, line 541, in execute_code_block'' @ NL,
               ''  File plot_demo.py, line 5, in <module>'' @ NL],
      exception_only = [''ZeroDivisionError: division by zero'' @ NL]\<rparr>"

definition demo_exit :: exc_info where
  "demo_exit = \<lparr>is_Exception = False, is_SyntaxError = False,
      stack = [''  File gen_rst.py, line 541, in execute_code_block'' @ NL],
      exception_only = [''SystemExit'' @ NL]\<rparr>"

definition demo_exec :: "string \<Rightarrow> nat \<Rightarrow> world \<Rightarrow> outcome" where
  "demo_exec code_block lineno w =
     (if code_block = ''1/0'' then Raised demo_exc (w\<lparr>cwd := ''/tmp'', stdout := Stream 7\<rparr>)
      else if code_block = ''sys.exit()'' then Raised demo_exit w
      else if code_block = ''shutil.rmtree(doc); sys.exit()'' then
        Raised demo_exit (w\<lparr>dirs := filter (\<lambda>d. take 4 d \<noteq> ''/doc'') (dirs w)\<rparr>)
      else if code_block = ''sys.stdout.close(); 1/0'' then
        Raised demo_exc (w\<lparr>stdout := Broken ''I/O operation on closed file''\<rparr>)
      else if code_block = ''plt.figure(2)'' then
        Finished (w\<lparr>figures := [(2, Picture 640 480 ''first'')]\<rparr>) '''' (1 / 4)
      else if code_block = ''plt.figure()'' then
        Finished (w\<lparr>figures := [(1, Picture 640 480 ''second'')], cwd := ''/elsewhere''\<rparr>) ''done'' (1 / 2)
      else Finished w '''' 0)"

definition demo_basename :: "string \<Rightarrow> string" where
  "demo_basename p = rev (takeWhile (\<lambda>c. c \<noteq> CHR ''/'') (rev p))"

definition demo_platform :: platform where
  "demo_platform = \<lparr>os_sep = CHR ''/'', relpath = demo_relpath,
      dirname = (\<lambda>p. rev (drop 1 (dropWhile (\<lambda>c. c \<noteq> CHR ''/'') (rev p)))),
      indent = (\<lambda>text prefix. prefix @ text), expandtabs = (\<lambda>s. s), sphinx_ge_1_3 = True,
      exec_block = demo_exec, os_normpath = (\<lambda>p. p), os_join = (\<lambda>a b. a @ ''/'' @ b),
      os_splitext = (\<lambda>p. rev (drop 1 (dropWhile (\<lambda>c. c \<noteq> CHR ''.'') (rev p)))),
      os_basename = demo_basename,
      re_search = (\<lambda>pattern s. take (length pattern) (demo_basename s) = pattern),
      md5_hexdigest = (\<lambda>content. ''md5 of '' @ content),
      decode_text = (\<lambda>content. if list_all (\<lambda>c. (of_char c :: nat) < 128) content
                                 then Some content else None),
      checked_binder_conf = Inr False, gen_binder_rst = (\<lambda>fname. []),
      replace_py_ipynb = (\<lambda>fname. rev (drop 2 (rev fname)) @ ''ipynb''),
      CODE_DOWNLOAD = (\<lambda>fname nb badge. ''Download '' @ fname @ '' '' @ nb @ badge @ NL),
      glr_path_static = ''/static'',
      format_running_time = (\<lambda>t. ''**Total running time of the script:**'' @ NL @ NL)\<rparr>"

definition demo_world :: world where
  "demo_world = \<lparr>cwd = ''/doc'', stdout = Stream 1, argv = [''sphinx-build''], figures = [],
      scenes = [], images = Map.empty, files = Map.empty,
      dirs = [''/doc'', ''/doc/examples'', ''/doc/auto'', ''/tmp'', ''/elsewhere'', ''/static''],
      namespace = Map.empty, trace = []\<rparr>"

definition demo_block_vars :: block_vars where
  "demo_block_vars = \<lparr>execute_script = True, fig_count = 0,
      image_path = ''/doc/auto/images/sphx_glr_plot_demo_{0:03}.png'',
      src_file = ''/doc/examples/plot_demo.py''\<rparr>"

definition demo_conf :: gallery_conf where
  "demo_conf = \<lparr>abort_on_example_error = False, failing_examples = Map.empty,
      find_mayavi_figures = False, src_dir = ''/doc'', plot_gallery = True,
      filename_pattern = ''plot'', line_numbers = False, min_reported_time = 0,
      thumbnail_size = (400, 280), default_thumb_file = None\<rparr>"











section \<open>Figure numbering across blocks\<close>


text \<open>Two blocks of one file, run one after the other.\<close>

definition after_first_block ::
  "(failure + string \<times> real) \<times> block_vars \<times> gallery_conf \<times> world" where
  "after_first_block =
     execute_code_block demo_platform ''plt.figure(2)'' 3 demo_block_vars demo_conf demo_world"

definition after_second_block ::
  "(failure + string \<times> real) \<times> block_vars \<times> gallery_conf \<times> world" where
  "after_second_block =
     execute_code_block demo_platform ''plt.figure()'' 9 (fst (snd after_first_block))
       (fst (snd (snd after_first_block))) (snd (snd (snd after_first_block)))"

lemma demo_paths:
  "format_template ''/doc/auto/images/sphx_glr_plot_demo_{0:03}.png'' 2
     = ''/doc/auto/images/sphx_glr_plot_demo_002.png''"
  by code_simp

text \<open>
  Claim C6 at a concrete file.  The first block leaves one open figure, numbered 2; the
  second block leaves one open figure, numbered 1.  \<^verbatim>\<open>save_figures\<close> names a file by
  \<^verbatim>\<open>fig_count + fig_num\<close> but advances \<^verbatim>\<open>fig_count\<close> by the number of figures saved, so
  both figures are saved to the path numbered 002: the second overwrites the first, and
  no path numbered 001 is written.
\<close>

theorem save_figures_reuses_path:
  "trace (snd (snd (snd after_second_block))) =
     [Exec ''plt.figure(2)'' 3, SaveFig ''/doc/auto/images/sphx_glr_plot_demo_002.png'',
      Exec ''plt.figure()'' 9, SaveFig ''/doc/auto/images/sphx_glr_plot_demo_002.png'']
   \<and> fig_count (fst (snd after_first_block)) = 1
   \<and> fig_count (fst (snd after_second_block)) = 2"
  by (simp add: after_second_block_def after_first_block_def execute_code_block_def
        try_except_else_def getcwd_def chdir_def flush_def
        save_figures_def finally_clause_def figure_rst_def Let_def
        demo_block_vars_def demo_conf_def demo_platform_def demo_exec_def demo_world_def
        demo_paths del: format_template.simps)

section \<open>The source parser (py_source_parser.py)\<close>

subsection \<open>What Python provides\<close>

text \<open>
  The parser of Python itself is outside the repository.  For the bytes of a source,
  \<^verbatim>\<open>ast.parse\<close> either raises (a \<^verbatim>\<open>SyntaxError\<close>, or something else) or returns a node.
  Of a \<open>Module\<close> node the code reads two things: the attribute \<^verbatim>\<open>docstring\<close> (absent in every
  released interpreter, which is the \<open>None\<close> of the first argument; when present its
  value is a string or \<^verbatim>\<open>None\<close>), and whether the first statement of the body is a string
  expression, with its value and its \<^verbatim>\<open>lineno\<close>.
\<close>

datatype ast_node =
    Module "string option option" "(string \<times> nat) option"
  | OtherNode string

text \<open>
  Values of literals as far as the code inspects them: \<^verbatim>\<open>None\<close>, booleans, integers,
  strings, and any other literal with its truth value.
\<close>

datatype pyval = NoneVal | BoolVal bool | IntVal int | StrVal string | OtherVal bool

text \<open>
  The interpreter's services: \<^verbatim>\<open>ast.parse\<close> on bytes; \<^verbatim>\<open>bytes.decode('utf-8')\<close>, which
  gives the text or raises \<^verbatim>\<open>UnicodeDecodeError\<close> (\<open>None\<close>); the end row of the first string
  token as \<^verbatim>\<open>tokenize\<close> reports it (0 when there is none); and \<^verbatim>\<open>ast.literal_eval\<close>, which
  returns a value or raises.  The content of a file is a string of bytes, a text is a string
  of characters; the two are related by \<open>decode_utf8\<close> only.
\<close>

record python =
  ast_parse :: "string \<Rightarrow> error + ast_node"
  decode_utf8 :: "string \<Rightarrow> string option"
  first_string_end_row :: "string \<Rightarrow> nat"
  literal_eval :: "string \<Rightarrow> error + pyval"

subsection \<open>Reading the file\<close>

definition SYNTAX_ERROR_DOCSTRING :: string where
  "SYNTAX_ERROR_DOCSTRING =
     NL @ ''SyntaxError'' @ NL @ ''==========='' @ NL @ NL
        @ ''Example script with invalid Python syntax'' @ NL"

text \<open>\<^verbatim>\<open>content.replace(b'\r\n', b'\n')\<close> on the bytes of the file.\<close>

fun crlf_to_lf :: "string \<Rightarrow> string" where
  "crlf_to_lf (c # d # s) =
     (if c = CHR 0x0D \<and> d = CHR 0x0A then CHR 0x0A # crlf_to_lf s else c # crlf_to_lf (d # s))"
| "crlf_to_lf s = s"

text \<open>
  \<^verbatim>\<open>parse_source_file\<close>.  The content is decoded after a successful parse and, in the
  handler, after a \<^verbatim>\<open>SyntaxError\<close>; both calls of \<^verbatim>\<open>decode\<close> can raise.  An exception of
  \<^verbatim>\<open>ast.parse\<close> that is not a \<^verbatim>\<open>SyntaxError\<close> is not caught.
\<close>

definition parse_source_file ::
  "python \<Rightarrow> (string \<rightharpoonup> string) \<Rightarrow> string \<Rightarrow> error + ast_node option \<times> string" where
  "parse_source_file P fs filename =
     (case fs filename of
        None \<Rightarrow> Inl (IOError filename)
      | Some bytes \<Rightarrow>
          let content = crlf_to_lf bytes
          in (case ast_parse P content of
                Inr node \<Rightarrow>
                  (case decode_utf8 P content of
                     None \<Rightarrow> Inl UnicodeDecodeError
                   | Some decoded \<Rightarrow> Inr (Some node, decoded))
              | Inl (SyntaxError message) \<Rightarrow>
                  (case decode_utf8 P content of
                     None \<Rightarrow> Inl UnicodeDecodeError
                   | Some decoded \<Rightarrow> Inr (None, decoded))
              | Inl e \<Rightarrow> Inl e))"

text \<open>
  \<open>split_nl\<close> is \<^verbatim>\<open>content.split('\n')\<close>, \<open>join_nl\<close> is \<^verbatim>\<open>'\n'.join(lines)\<close> and
  \<open>split_last n content\<close> is \<^verbatim>\<open>content.split('\n', n)[-1]\<close>: what follows the first \<open>n\<close>
  newlines, or the last line when there are fewer.
\<close>

fun split_nl :: "string \<Rightarrow> string list" where
  "split_nl [] = [[]]"
| "split_nl (c # s) =
     (if c = CHR 0x0A then [] # split_nl s
      else (case split_nl s of l # ls \<Rightarrow> (c # l) # ls | [] \<Rightarrow> [[c]]))"

fun join_nl :: "string list \<Rightarrow> string" where
  "join_nl [] = []"
| "join_nl [l] = l"
| "join_nl (l # ls) = l @ NL @ join_nl ls"

fun split_last :: "nat \<Rightarrow> string \<Rightarrow> string" where
  "split_last 0 s = s"
| "split_last (Suc n) s =
     (if CHR 0x0A \<in> set s then split_last n (drop 1 (dropWhile (\<lambda>c. c \<noteq> CHR 0x0A) s)) else s)"

text \<open>
  \<^verbatim>\<open>get_docstring_and_rest\<close>.  The \<^verbatim>\<open>try\<close> branch is taken when the node has the attribute
  \<^verbatim>\<open>docstring\<close>, the \<^verbatim>\<open>except AttributeError\<close> branch otherwise.  In the last \<^verbatim>\<open>else\<close> the
  source leaves \<^verbatim>\<open>lineno\<close> unbound; the value is never returned, since the empty docstring
  raises.
\<close>

definition get_docstring_and_rest ::
  "python \<Rightarrow> (string \<rightharpoonup> string) \<Rightarrow> string \<Rightarrow> error + string \<times> string \<times> nat" where
  "get_docstring_and_rest P fs filename =
     (case parse_source_file P fs filename of
        Inl e \<Rightarrow> Inl e
      | Inr (node, content) \<Rightarrow>
          (case node of
             None \<Rightarrow> Inr (SYNTAX_ERROR_DOCSTRING, content, 1)
           | Some (OtherNode name) \<Rightarrow>
               Inl (TypeError (''This function only supports modules. You provided '' @ name))
           | Some (Module docstring_attr first_stmt) \<Rightarrow>
               (case (case docstring_attr of
                        Some d \<Rightarrow>
                          let ds_lines = first_string_end_row P content
                          in (d, join_nl (drop ds_lines (split_nl content)), ds_lines + 1)
                      | None \<Rightarrow>
                          (case first_stmt of
                             Some (s, lineno) \<Rightarrow> (Some s, split_last lineno content, lineno + 1)
                           | None \<Rightarrow> (Some '''', '''', 0))) of
                  (docstring, rest, lineno) \<Rightarrow>
                    if docstring = None \<or> docstring = Some ''''
                    then Inl (ValueError (''Could not find docstring in file '' @ filename))
                    else Inr (the docstring, rest, lineno))))"

subsection \<open>The section-header pattern\<close>

text \<open>
  The pattern is
  \<^verbatim>\<open>(?P<header_line>^#{20,}.*)\s(?P<text_content>(?:^#.*\s)*)\<close> with \<^verbatim>\<open>re.M\<close>.
  The functions below follow the backtracking matcher of \<^verbatim>\<open>re\<close> piece by piece.

  \<open>line_then_space s\<close> is the length matched by \<^verbatim>\<open>.*\s\<close> at the start of \<open>s\<close>: the dot
  does not match a newline, so when the line ends in a newline the greedy \<^verbatim>\<open>.*\<close> takes the
  whole line and \<^verbatim>\<open>\s\<close> the newline; on a last line without newline the matcher backtracks
  to the last whitespace character of the line, and fails when there is none.
\<close>

definition line_then_space :: "string \<Rightarrow> nat option" where
  "line_then_space s =
     (let l = takeWhile (\<lambda>c. c \<noteq> CHR 0x0A) s
      in if length l < length s then Some (length l + 1)
         else
           let k = length (takeWhile (\<lambda>c. \<not> isspace c) (rev l))
           in if k = length l then None else Some (length l - k))"

lemma line_then_space_bounds:
  "line_then_space s = Some n \<Longrightarrow> 0 < n \<and> n \<le> length s"
proof -
  assume a: "line_then_space s = Some n"
  let ?l = "takeWhile (\<lambda>c. c \<noteq> CHR 0x0A) s"
  let ?k = "length (takeWhile (\<lambda>c. \<not> isspace c) (rev ?l))"
  have l: "length ?l \<le> length s" by (rule length_takeWhile_le)
  have k: "?k \<le> length ?l" using length_takeWhile_le [of _ "rev ?l"] by simp
  show ?thesis
  proof (cases "length ?l < length s")
    case True
    then show ?thesis using a by (simp add: line_then_space_def Let_def)
  next
    case False
    then have "?k \<noteq> length ?l" and "n = length ?l - ?k"
      using a by (simp_all add: line_then_space_def Let_def split: if_splits)
    then show ?thesis using l k by linarith
  qed
qed

text \<open>
  \<open>text_content s\<close> is the text matched by \<^verbatim>\<open>(?:^#.*\s)*\<close> at a line start: one iteration
  per line that starts with a hash, as long as the iteration ended on a newline (the
  anchor \<^verbatim>\<open>^\<close> holds only at a line start).
\<close>

function text_content :: "string \<Rightarrow> string" where
  "text_content s =
     (case s of
        [] \<Rightarrow> []
      | c # s' \<Rightarrow>
          if c \<noteq> CHR ''#'' then []
          else (case line_then_space s' of
                  None \<Rightarrow> []
                | Some k \<Rightarrow>
                    if s' ! (k - 1) = CHR 0x0A then c # take k s' @ text_content (drop k s')
                    else c # take k s'))"
  by pat_completeness auto
termination
proof (relation "measure length")
  show "wf (measure length)" by simp
next
  fix s :: string and c s' k
  assume "s = c # s'" and "line_then_space s' = Some k"
  then show "(drop k s', s) \<in> measure length" by simp
qed

declare text_content.simps [simp del]

text \<open>
  \<open>header_match_at s\<close> is the match of the whole pattern at a line start: its length and the
  group \<^verbatim>\<open>text_content\<close>.  Twenty hashes are required; further hashes are taken by \<^verbatim>\<open>.*\<close>.
\<close>

definition hashes20 :: string where
  "hashes20 = replicate 20 (CHR ''#'')"

definition header_match_at :: "string \<Rightarrow> (nat \<times> string) option" where
  "header_match_at s =
     (if take 20 s \<noteq> hashes20 then None
      else (case line_then_space (drop 20 s) of
              None \<Rightarrow> None
            | Some k \<Rightarrow>
                let h = 20 + k;
                    t = (if s ! (h - 1) = CHR 0x0A then text_content (drop h s) else [])
                in Some (h + length t, t)))"

lemma text_content_length: "length (text_content s) \<le> length s"
proof (induction s rule: text_content.induct)
  case (1 s)
  show ?case
  proof (cases s)
    case Nil
    then show ?thesis by (simp add: text_content.simps)
  next
    case (Cons c s')
    show ?thesis
    proof (cases "c \<noteq> CHR ''#''")
      case True
      then show ?thesis using Cons by (simp add: text_content.simps)
    next
      case False
      show ?thesis
      proof (cases "line_then_space s'")
        case None
        then show ?thesis using Cons False by (simp add: text_content.simps)
      next
        case (Some k)
        then have k: "0 < k" "k \<le> length s'" using line_then_space_bounds by auto
        show ?thesis
        proof (cases "s' ! (k - 1) = CHR 0x0A")
          case True
          have "length (text_content (drop k s')) \<le> length (drop k s')"
            using "1.IH" [OF Cons _ Some True] False by simp
          moreover have "text_content s = c # take k s' @ text_content (drop k s')"
            using Cons False Some True by (subst text_content.simps) simp
          ultimately show ?thesis using Cons k by simp
        next
          case False2: False
          then have "text_content s = c # take k s'"
            using Cons False Some by (subst text_content.simps) simp
          then show ?thesis using Cons k by simp
        qed
      qed
    qed
  qed
qed

lemma header_match_at_bounds:
  "header_match_at s = Some (n, t) \<Longrightarrow> 0 < n \<and> n \<le> length s"
proof -
  assume a: "header_match_at s = Some (n, t)"
  then obtain k where k: "line_then_space (drop 20 s) = Some k" and t20: "take 20 s = hashes20"
    by (auto simp: header_match_at_def split: if_splits option.splits)
  have "length s \<ge> 20" using t20 by (auto simp: hashes20_def dest: arg_cong [where f = length])
  moreover have kb: "0 < k \<and> k \<le> length s - 20" using line_then_space_bounds [OF k] by simp
  moreover have "length (text_content (drop (20 + k) s)) \<le> length s - (20 + k)"
    using text_content_length [of "drop (20 + k) s"] by simp
  ultimately show ?thesis using a k t20
    by (auto simp: header_match_at_def Let_def split: if_splits)
qed

text \<open>
  \<open>finditer_header pos bol s\<close> lists the matches of \<^verbatim>\<open>re.finditer\<close> in the text \<open>s\<close> that
  starts at position \<open>pos\<close>, as (start, end, text_content); \<open>bol\<close> says whether \<open>pos\<close> is a
  line start.  After a match the search resumes at its end.
\<close>

function finditer_header :: "nat \<Rightarrow> bool \<Rightarrow> string \<Rightarrow> (nat \<times> nat \<times> string) list" where
  "finditer_header pos bol s =
     (case (if bol then header_match_at s else None) of
        Some (n, t) \<Rightarrow>
          (pos, pos + n, t) # finditer_header (pos + n) (s ! (n - 1) = CHR 0x0A) (drop n s)
      | None \<Rightarrow>
          (case s of
             [] \<Rightarrow> []
           | c # s' \<Rightarrow> finditer_header (pos + 1) (c = CHR 0x0A) s'))"
  by pat_completeness auto
termination
proof (relation "measure (\<lambda>(pos, bol, s). length s)")
  show "wf (measure (\<lambda>(pos, bol, s). length s))" by simp
next
  fix pos :: nat and bol :: bool and s :: string and x2 n t
  assume "(if bol then header_match_at s else None) = Some x2" and "(n, t) = x2"
  then have "header_match_at s = Some (n, t)" by (simp split: if_splits)
  then have "0 < n \<and> n \<le> length s" by (rule header_match_at_bounds)
  then show "((pos + n, s ! (n - 1) = CHR 0x0A, drop n s), (pos, bol, s))
      \<in> measure (\<lambda>(pos, bol, s). length s)" by auto
next
  fix pos :: nat and bol :: bool and s :: string and c s'
  assume "s = c # s'"
  then show "((pos + 1, c = CHR 0x0A, s'), (pos, bol, s)) \<in> measure (\<lambda>(pos, bol, s). length s)"
    by simp
qed

declare finditer_header.simps [simp del]

subsection \<open>The directive pattern and \<^verbatim>\<open>extract_file_config\<close>\<close>

text \<open>
  The pattern is
  \<^verbatim>\<open>^\s*#\s*sphinx_galleria_([A-Za-z0-9_]+)\s*=\s*(.+)\s*$\<close> with \<^verbatim>\<open>re.MULTILINE\<close>.
  \<open>prop_match_at s\<close> is its match at a line start: the length and the two groups.  Every
  greedy piece but the last two is forced.  After the equals sign \<^verbatim>\<open>\s*\<close> takes all
  whitespace, newlines included; \<^verbatim>\<open>(.+)\<close> then takes the rest of that line.  When only
  whitespace follows the equals sign up to the end of the text, the matcher backtracks and
  the value is the last character that is not a newline.  The trailing \<^verbatim>\<open>\s*$\<close> extends
  the match to the last position that is followed by a newline or the end of the text.
\<close>

definition isword :: "char \<Rightarrow> bool" where
  "isword c = (c \<in> set ''ABCDEFGHIJKLMNOPQRSTUVWXYZabcdefghijklmnopqrstuvwxyz0123456789_'')"
definition prop_match_at :: "string \<Rightarrow> (nat \<times> string \<times> string) option" where
  "prop_match_at s =
     (let s1 = dropWhile isspace s in
      if take 1 s1 \<noteq> ''#'' then None
      else
        let s2 = dropWhile isspace (drop 1 s1) in
        if take 16 s2 \<noteq> ''sphinx_galleria_'' then None
        else
          let s3 = drop 16 s2; name = takeWhile isword s3 in
          if name = [] then None
          else
            let s5 = dropWhile isspace (drop (length name) s3) in
            if take 1 s5 \<noteq> ''='' then None
            else
              let s6 = drop 1 s5; ws = takeWhile isspace s6; s7 = dropWhile isspace s6 in
              if s7 \<noteq> [] then
                let v = takeWhile (\<lambda>c. c \<noteq> CHR 0x0A) s7;
                    r = dropWhile (\<lambda>c. c \<noteq> CHR 0x0A) s7;
                    W = takeWhile isspace r;
                    k = (if length W = length r then length r
                         else length W - 1 - length (takeWhile (\<lambda>c. c \<noteq> CHR 0x0A) (rev W)))
                in Some (length s - length r + k, name, v)
              else
                let j = length (takeWhile (\<lambda>c. c = CHR 0x0A) (rev ws)) in
                if j = length ws then None
                else Some (length s, name, [ws ! (length ws - j - 1)]))"

lemma length_dropWhile_le': "length (dropWhile P xs) \<le> length xs"
  by (induction xs) auto

lemma prop_match_at_bounds:
  assumes "prop_match_at s = Some (n, name, v)"
  shows "0 < n \<and> n \<le> length s"
proof -
  define s1 where "s1 = dropWhile isspace s"
  define s2 where "s2 = dropWhile isspace (drop 1 s1)"
  define s3 where "s3 = drop 16 s2"
  define nm where "nm = takeWhile isword s3"
  define s5 where "s5 = dropWhile isspace (drop (length nm) s3)"
  define s6 where "s6 = drop 1 s5"
  define ws where "ws = takeWhile isspace s6"
  define s7 where "s7 = dropWhile isspace s6"
  define r where "r = dropWhile (\<lambda>c. c \<noteq> CHR 0x0A) s7"
  define W where "W = takeWhile isspace r"
  define k where "k = (if length W = length r then length r
                         else length W - 1 - length (takeWhile (\<lambda>c. c \<noteq> CHR 0x0A) (rev W)))"
  define j where "j = length (takeWhile (\<lambda>c. c = CHR 0x0A) (rev ws))"
  note defs = s1_def s2_def s3_def nm_def s5_def s6_def ws_def s7_def r_def W_def k_def j_def
  have hash: "take 1 s1 = ''#''" and eq: "take 1 s5 = ''=''"
    using assms unfolding prop_match_at_def Let_def defs [symmetric]
    by (auto split: if_splits)
  have l1: "length s1 \<le> length s" unfolding s1_def by (rule length_dropWhile_le')
  have l2: "length s2 \<le> length s1 - 1"
    unfolding s2_def using length_dropWhile_le' [of isspace "drop 1 s1"] by simp
  have l3: "length s3 \<le> length s2" unfolding s3_def by simp
  have l5: "length s5 \<le> length s3"
    unfolding s5_def using length_dropWhile_le' [of isspace "drop (length nm) s3"] by simp
  have l6: "length s6 = length s5 - 1" unfolding s6_def by simp
  have l7: "length s7 \<le> length s6" unfolding s7_def by (rule length_dropWhile_le')
  have lr: "length r \<le> length s7" unfolding r_def by (rule length_dropWhile_le')
  have lW: "length W \<le> length r" unfolding W_def by (rule length_takeWhile_le)
  have s1ne: "1 \<le> length s1" using hash by (cases s1) auto
  have s5ne: "1 \<le> length s5" using eq by (cases s5) auto
  have chain: "length r + 2 \<le> length s" using l1 l2 l3 l5 l6 l7 lr s1ne s5ne by linarith
  have kb: "k \<le> length r" unfolding k_def using lW by auto
  show ?thesis
  proof (cases "s7 \<noteq> []")
    case True
    then have "n = length s - length r + k"
      using assms unfolding prop_match_at_def Let_def defs [symmetric]
      by (auto split: if_splits)
    then show ?thesis using chain kb by linarith
  next
    case False
    then have "n = length s"
      using assms unfolding prop_match_at_def Let_def defs [symmetric]
      by (auto split: if_splits)
    then show ?thesis using chain by linarith
  qed
qed

function finditer_prop :: "bool \<Rightarrow> string \<Rightarrow> (string \<times> string) list" where
  "finditer_prop bol s =
     (case (if bol then prop_match_at s else None) of
        Some (n, name, v) \<Rightarrow> (name, v) # finditer_prop (s ! (n - 1) = CHR 0x0A) (drop n s)
      | None \<Rightarrow>
          (case s of
             [] \<Rightarrow> []
           | c # s' \<Rightarrow> finditer_prop (c = CHR 0x0A) s'))"
  by pat_completeness auto
termination
proof (relation "measure (\<lambda>(bol, s). length s)")
  show "wf (measure (\<lambda>(bol, s). length s))" by simp
next
  fix bol :: bool and s :: string and x2 n y name v
  assume "(if bol then prop_match_at s else None) = Some x2" and "(n, y) = x2" and "(name, v) = y"
  then have "prop_match_at s = Some (n, name, v)" by (simp split: if_splits)
  then have "0 < n \<and> n \<le> length s" by (rule prop_match_at_bounds)
  then show "((s ! (n - 1) = CHR 0x0A, drop n s), (bol, s)) \<in> measure (\<lambda>(bol, s). length s)"
    by auto
next
  fix bol :: bool and s :: string and c s'
  assume "s = c # s'"
  then show "((c = CHR 0x0A, s'), (bol, s)) \<in> measure (\<lambda>(bol, s). length s)" by simp
qed

declare finditer_prop.simps [simp del]

text \<open>
  The names bound at module level in py_source_parser.py: the three \<^verbatim>\<open>__future__\<close>
  imports, \<^verbatim>\<open>ast\<close>, \<^verbatim>\<open>re\<close>, \<^verbatim>\<open>dedent\<close>, the constant and the four functions.  The
  name \<^verbatim>\<open>logger\<close> is not among them (and is no builtin), so evaluating
  \<^verbatim>\<open>logger.warning\<close> raises \<^verbatim>\<open>NameError\<close>.
\<close>

definition module_names :: "string list" where
  "module_names = [''division'', ''absolute_import'', ''print_function'', ''ast'', ''re'',
     ''dedent'', ''SYNTAX_ERROR_DOCSTRING'', ''parse_source_file'', ''get_docstring_and_rest'',
     ''extract_file_config'', ''split_code_and_text_blocks'']"

text \<open>The handler \<^verbatim>\<open>except (SyntaxError, ValueError)\<close>.\<close>

fun caught :: "error \<Rightarrow> bool" where
  "caught (SyntaxError m) = True"
| "caught (ValueError m) = True"
| "caught e = False"

fun extract_loop ::
  "python \<Rightarrow> (string \<times> string) list \<Rightarrow> (string \<rightharpoonup> pyval) \<Rightarrow> error + (string \<rightharpoonup> pyval)" where
  "extract_loop P [] file_conf = Inr file_conf"
| "extract_loop P ((name, v) # matches) file_conf =
     (case literal_eval P v of
        Inl e \<Rightarrow>
          if caught e then
            (if ''logger'' \<in> set module_names then extract_loop P matches file_conf
             else Inl (NameError ''logger''))
          else Inl e
      | Inr v' \<Rightarrow> extract_loop P matches (file_conf(name \<mapsto> v')))"

definition extract_file_config :: "python \<Rightarrow> string \<Rightarrow> error + (string \<rightharpoonup> pyval)" where
  "extract_file_config P content = extract_loop P (finditer_prop True content) Map.empty"

subsection \<open>\<^verbatim>\<open>split_code_and_text_blocks\<close>\<close>

text \<open>
  \<open>sub_hash True s\<close> is \<^verbatim>\<open>re.sub('^#', '', s)\<close> with \<^verbatim>\<open>re.M\<close>: a hash at a line start is
  dropped.
\<close>

fun sub_hash :: "bool \<Rightarrow> string \<Rightarrow> string" where
  "sub_hash bol [] = []"
| "sub_hash bol (c # s) =
     (if bol \<and> c = CHR ''#'' then sub_hash False s else c # sub_hash (c = CHR 0x0A) s)"

text \<open>
  \<^verbatim>\<open>textwrap.dedent\<close>, as in CPython's textwrap.py: lines of blanks and tabs only are
  emptied, the margin is the longest common prefix of the indentations of the remaining
  non-empty lines (\<open>narrow_margin\<close> is one step of the loop), and the margin is removed from
  every line that starts with it.
\<close>

definition isblank :: "char \<Rightarrow> bool" where
  "isblank c = (c = CHR '' '' \<or> c = CHR 0x09)"

definition narrow_margin :: "string \<Rightarrow> string \<Rightarrow> string" where
  "narrow_margin margin indent' =
     (if take (length margin) indent' = margin then margin
      else if take (length indent') margin = indent' then indent'
      else take (length (takeWhile (\<lambda>(x, y). x = y) (zip margin indent'))) margin)"

definition dedent :: "string \<Rightarrow> string" where
  "dedent text' =
     (let lines = map (\<lambda>l. if l \<noteq> [] \<and> list_all isblank l then [] else l) (split_nl text');
          indents = map (takeWhile isblank) (filter (\<lambda>l. dropWhile isblank l \<noteq> []) lines);
          margin = (case indents of [] \<Rightarrow> [] | i # rest \<Rightarrow> foldl narrow_margin i rest)
      in if margin \<noteq> []
         then join_nl (map (\<lambda>l. if take (length margin) l = margin then drop (length margin) l else l) lines)
         else join_nl lines)"

text \<open>A block is a label (\<^verbatim>\<open>'text'\<close> or \<^verbatim>\<open>'code'\<close>), its content and its first line.\<close>

datatype label = Text | Code

type_synonym block = "label \<times> string \<times> nat"

text \<open>The body of the loop over the matches, and the function itself.\<close>

fun blocks_loop ::
  "string \<Rightarrow> (nat \<times> nat \<times> string) list \<Rightarrow> nat \<Rightarrow> nat \<Rightarrow> block list \<Rightarrow> block list \<times> nat \<times> nat" where
  "blocks_loop rest_of_content [] pos_so_far lineno blocks = (blocks, pos_so_far, lineno)"
| "blocks_loop rest_of_content ((match_start, match_end, text_content') # matches) pos_so_far lineno blocks =
     (let code_block_content = take (match_start - pos_so_far) (drop pos_so_far rest_of_content);
          blocks1 = (if strip code_block_content \<noteq> []
                     then blocks @ [(Code, code_block_content, lineno)] else blocks);
          lineno1 = lineno + count_char (CHR 0x0A) code_block_content;
          lineno2 = lineno1 + 1;
          text_block_content = lstrip (dedent (sub_hash True text_content'));
          blocks2 = (if strip text_block_content \<noteq> []
                     then blocks1 @ [(Text, text_block_content, lineno2)] else blocks1);
          lineno3 = lineno2 + count_char (CHR 0x0A) text_content'
      in blocks_loop rest_of_content matches match_end lineno3 blocks2)"

definition split_code_and_text_blocks ::
  "python \<Rightarrow> (string \<rightharpoonup> string) \<Rightarrow> string \<Rightarrow> error + (string \<rightharpoonup> pyval) \<times> block list" where
  "split_code_and_text_blocks P fs source_file =
     (case get_docstring_and_rest P fs source_file of
        Inl e \<Rightarrow> Inl e
      | Inr (docstring, rest_of_content, lineno) \<Rightarrow>
          (case extract_file_config P rest_of_content of
             Inl e \<Rightarrow> Inl e
           | Inr file_conf \<Rightarrow>
               (case blocks_loop rest_of_content (finditer_header 0 True rest_of_content) 0 lineno
                       [(Text, docstring, 1)] of
                  (blocks, pos_so_far, lineno') \<Rightarrow>
                    let remaining_content = drop pos_so_far rest_of_content
                    in Inr (file_conf,
                            if strip remaining_content \<noteq> []
                            then blocks @ [(Code, remaining_content, lineno')]
                            else blocks))))"

subsection \<open>Sample files\<close>

text \<open>
  Nine source files and an interpreter for concrete runs: a file whose last comment line
  has no final newline, the same file with it, a file with a directive whose value is an
  unterminated string, a file whose docstring is two blanks, a file whose docstring is
  empty, a file that is not valid Python, the same file with the line ending of Windows, a
  file that is neither valid Python nor valid UTF-8, and a file in Latin-1 that declares its encoding, which is valid Python with a
  docstring and not valid UTF-8.  The decoder of the sample interpreter knows the sequences
  of one and two bytes for the characters below 256.
\<close>

definition DQ :: string where
  "DQ = [CHR 0x22]"

definition demo_header :: string where
  "demo_header = ''####################''"

definition src_no_newline :: string where
  "src_no_newline = DQ @ DQ @ DQ @ ''Title'' @ DQ @ DQ @ DQ @ NL @ ''x = 1'' @ NL
     @ demo_header @ NL @ ''# Some text''"

definition src_newline :: string where
  "src_newline = src_no_newline @ NL"

definition src_bad_option :: string where
  "src_bad_option = DQ @ DQ @ DQ @ ''Title'' @ DQ @ DQ @ DQ @ NL
     @ ''# sphinx_galleria_thumbnail_number = '' @ [CHR 0x27] @ ''abc'' @ NL @ ''x = 1'' @ NL
     @ demo_header @ NL @ ''# Some text'' @ NL"

definition src_blank_doc :: string where
  "src_blank_doc = DQ @ ''  '' @ DQ @ NL @ ''x = 1'' @ NL"

definition src_empty_doc :: string where
  "src_empty_doc = DQ @ DQ @ NL @ ''x = 1'' @ NL"

definition src_syntax_error :: string where
  "src_syntax_error = ''x = ('' @ NL"

definition src_crlf :: string where
  "src_crlf = ''x = ('' @ [CHR 0x0D, CHR 0x0A]"

definition src_bad_bytes :: string where
  "src_bad_bytes = ''x = ('' @ NL @ [CHR 0xFF]"

definition src_latin1 :: string where
  "src_latin1 = ''# -*- coding: latin-1 -*-'' @ NL
     @ DQ @ DQ @ DQ @ ''Caf'' @ [CHR 0xE9] @ DQ @ DQ @ DQ @ NL @ ''x = 1'' @ NL"

definition demo_ast_parse :: "string \<Rightarrow> error + ast_node" where
  "demo_ast_parse content =
     (if content = src_syntax_error then Inl (SyntaxError ''invalid syntax'')
      else if content = src_bad_bytes then Inl (SyntaxError ''(unicode error)'')
      else if content = src_latin1 then Inr (Module None (Some (''Caf'' @ [CHR 0xE9], 2)))
      else if content = src_blank_doc then Inr (Module None (Some (''  '', 1)))
      else if content = src_empty_doc then Inr (Module None (Some ('''', 1)))
      else if take 3 content = DQ @ DQ @ DQ then Inr (Module None (Some (''Title'', 1)))
      else Inr (Module None None))"

fun demo_decode :: "string \<Rightarrow> string option" where
  "demo_decode [] = Some []"
| "demo_decode [c] = (if (of_char c :: nat) < 128 then Some [c] else None)"
| "demo_decode (c # d # s) =
     (if (of_char c :: nat) < 128 then map_option ((#) c) (demo_decode (d # s))
      else if (c = CHR 0xC2 \<or> c = CHR 0xC3) \<and> 128 \<le> (of_char d :: nat) \<and> (of_char d :: nat) < 192
      then map_option ((#) (char_of ((of_char d :: nat) + (if c = CHR 0xC3 then 64 else 0))))
             (demo_decode s)
      else None)"

definition demo_literal_eval :: "string \<Rightarrow> error + pyval" where
  "demo_literal_eval v =
     (if v = ''2'' then Inr (IntVal 2)
      else if v = ''True'' then Inr (BoolVal True)
      else Inl (SyntaxError ''invalid syntax''))"

definition demo_python :: python where
  "demo_python = \<lparr>ast_parse = demo_ast_parse, decode_utf8 = demo_decode,
      first_string_end_row = (\<lambda>content. 1), literal_eval = demo_literal_eval\<rparr>"

definition demo_files :: "string \<rightharpoonup> string" where
  "demo_files = [''plot_no_newline.py'' \<mapsto> src_no_newline, ''plot_newline.py'' \<mapsto> src_newline,
     ''plot_bad_option.py'' \<mapsto> src_bad_option, ''plot_blank_doc.py'' \<mapsto> src_blank_doc,
     ''plot_empty_doc.py'' \<mapsto> src_empty_doc, ''plot_syntax_error.py'' \<mapsto> src_syntax_error,
     ''plot_bad_bytes.py'' \<mapsto> src_bad_bytes, ''plot_latin1.py'' \<mapsto> src_latin1,
     ''plot_crlf.py'' \<mapsto> src_crlf]"

section \<open>Properties of the parser\<close>

lemma map_sum_InlD: "map_sum (\<lambda>e. e) f x = Inl e \<Longrightarrow> x = Inl e"
  by (cases x) simp_all
lemma logger_unbound: "''logger'' \<notin> set module_names"
  by (simp add: module_names_def)

lemma extract_loop_invalid_fails:
  "(name, v) \<in> set matches \<Longrightarrow> literal_eval P v = Inl e \<Longrightarrow> isl (extract_loop P matches file_conf)"
proof (induction matches arbitrary: file_conf)
  case Nil
  then show ?case by simp
next
  case (Cons m matches)
  obtain name' v' where m: "m = (name', v')" by (cases m)
  show ?case
  proof (cases "literal_eval P v'")
    case (Inl e')
    then show ?thesis using m logger_unbound by simp
  next
    case (Inr x)
    then have "(name, v) \<in> set matches" using Cons.prems m by auto
    then show ?thesis using Cons.IH Cons.prems(2) m Inr by simp
  qed
qed

text \<open>
  Claim C2 at a concrete file.  The remainder holds the directive
  \<^verbatim>\<open># sphinx_galleria_thumbnail_number = 'abc\<close>, whose value is not a literal:
  \<^verbatim>\<open>ast.literal_eval\<close> raises \<^verbatim>\<open>SyntaxError\<close>, the handler evaluates \<^verbatim>\<open>logger.warning\<close>, and
  \<^verbatim>\<open>extract_file_config\<close> raises \<^verbatim>\<open>NameError\<close> instead of warning and going on.  The lemma
  before says the same of every text with such a directive.
\<close>

theorem extract_file_config_invalid_literal:
  "extract_file_config demo_python
     (''# sphinx_galleria_thumbnail_number = '' @ [CHR 0x27] @ ''abc'' @ NL @ ''x = 1'' @ NL)
   = Inl (NameError ''logger'')"
proof -
  have "map_sum (\<lambda>e. e) (\<lambda>c. ()) (extract_file_config demo_python
     (''# sphinx_galleria_thumbnail_number = '' @ [CHR 0x27] @ ''abc'' @ NL @ ''x = 1'' @ NL))
   = Inl (NameError ''logger'')"
    by code_simp
  then show ?thesis by (rule map_sum_InlD)
qed

text \<open>The docstring of a module node as the code reads it.\<close>

definition module_docstring :: "string option option \<Rightarrow> (string \<times> nat) option \<Rightarrow> string option" where
  "module_docstring docstring_attr first_stmt =
     (case docstring_attr of Some d \<Rightarrow> d | None \<Rightarrow> map_option fst first_stmt)"

lemma get_docstring_and_rest_module:
  assumes "parse_source_file P fs filename = Inr (Some (Module d b), content)"
  shows "((\<exists>m. get_docstring_and_rest P fs filename = Inl (ValueError m))
            \<longleftrightarrow> module_docstring d b = None \<or> module_docstring d b = Some '''')
       \<and> (isl (get_docstring_and_rest P fs filename)
            \<longleftrightarrow> module_docstring d b = None \<or> module_docstring d b = Some '''')
       \<and> (\<forall>doc. module_docstring d b = Some doc \<and> doc \<noteq> '''' \<longrightarrow>
             (\<exists>rest lineno. get_docstring_and_rest P fs filename = Inr (doc, rest, lineno)))"
  using assms
  by (auto simp: get_docstring_and_rest_def module_docstring_def Let_def
           split: option.splits prod.splits)

lemma get_docstring_and_rest_syntax_error:
  assumes "parse_source_file P fs filename = Inr (None, content)"
  shows "get_docstring_and_rest P fs filename = Inr (SYNTAX_ERROR_DOCSTRING, content, 1)"
  using assms by (simp add: get_docstring_and_rest_def)

lemma get_docstring_and_rest_nonempty:
  assumes "get_docstring_and_rest P fs filename = Inr (doc, rest, lineno)"
  shows "doc \<noteq> ''''"
proof -
  have s: "SYNTAX_ERROR_DOCSTRING \<noteq> ''''" by (simp add: SYNTAX_ERROR_DOCSTRING_def NL_def)
  show ?thesis using assms s
    by (auto simp: get_docstring_and_rest_def Let_def
             split: sum.splits option.splits prod.splits ast_node.splits if_splits)
qed
lemma strip_nonempty_iff: "strip s \<noteq> [] \<longleftrightarrow> (\<exists>c \<in> set s. \<not> isspace c)"
proof -
  have a: "dropWhile isspace s \<noteq> [] \<longleftrightarrow> (\<exists>c \<in> set s. \<not> isspace c)"
    by (simp add: dropWhile_eq_Nil_conv)
  have "strip s \<noteq> [] \<longleftrightarrow> (\<exists>c \<in> set (dropWhile isspace s). \<not> isspace c)"
    by (simp add: strip_def lstrip_def rstrip_def dropWhile_eq_Nil_conv)
  also have "\<dots> \<longleftrightarrow> dropWhile isspace s \<noteq> []"
  proof
    assume "\<exists>c \<in> set (dropWhile isspace s). \<not> isspace c"
    then show "dropWhile isspace s \<noteq> []" by (auto dest: set_dropWhileD)
  next
    assume ne: "dropWhile isspace s \<noteq> []"
    then have "\<not> isspace (hd (dropWhile isspace s))" by (rule hd_dropWhile)
    moreover have "hd (dropWhile isspace s) \<in> set (dropWhile isspace s)" using ne by simp
    ultimately show "\<exists>c \<in> set (dropWhile isspace s). \<not> isspace c" by blast
  qed
  finally show ?thesis using a by simp
qed

lemma blocks_loop_appends:
  "blocks_loop rest matches pos lineno blocks = (blocks', pos', lineno') \<Longrightarrow>
     \<exists>new. blocks' = blocks @ new \<and> (\<forall>b \<in> set new. strip (fst (snd b)) \<noteq> [])"
proof (induction matches arbitrary: pos lineno blocks)
  case Nil
  then show ?case by simp
next
  case (Cons m matches)
  obtain ms me tc where m: "m = (ms, me, tc)" by (cases m)
  define cbc where "cbc = take (ms - pos) (drop pos rest)"
  define b1 where "b1 = (if strip cbc \<noteq> [] then blocks @ [(Code, cbc, lineno)] else blocks)"
  define l2 where "l2 = lineno + count_char (CHR 0x0A) cbc + 1"
  define tbc where "tbc = lstrip (dedent (sub_hash True tc))"
  define b2 where "b2 = (if strip tbc \<noteq> [] then b1 @ [(Text, tbc, l2)] else b1)"
  have "blocks_loop rest (m # matches) pos lineno blocks
      = blocks_loop rest matches me (l2 + count_char (CHR 0x0A) tc) b2"
    unfolding m b2_def tbc_def l2_def b1_def cbc_def by (simp only: blocks_loop.simps Let_def)
  then have "blocks_loop rest matches me (l2 + count_char (CHR 0x0A) tc) b2 = (blocks', pos', lineno')"
    using Cons.prems by simp
  from Cons.IH [OF this] obtain new where
    new: "blocks' = b2 @ new" "\<forall>b \<in> set new. strip (fst (snd b)) \<noteq> []" by blast
  obtain mid where mid: "b2 = blocks @ mid" "\<forall>b \<in> set mid. strip (fst (snd b)) \<noteq> []"
    unfolding b2_def b1_def by (cases "strip cbc \<noteq> []"; cases "strip tbc \<noteq> []") auto
  have "blocks' = blocks @ (mid @ new)" using new mid by simp
  moreover have "\<forall>b \<in> set (mid @ new). strip (fst (snd b)) \<noteq> []" using new mid by auto
  ultimately show ?case by blast
qed

lemma split_blocks_shape:
  assumes "split_code_and_text_blocks P fs source_file = Inr (file_conf, blocks)"
  shows "\<exists>doc rest lineno more.
           get_docstring_and_rest P fs source_file = Inr (doc, rest, lineno)
         \<and> blocks = (Text, doc, 1) # more
         \<and> (\<forall>b \<in> set more. strip (fst (snd b)) \<noteq> [])"
proof -
  from assms obtain doc rest lineno where
    g: "get_docstring_and_rest P fs source_file = Inr (doc, rest, lineno)"
    by (auto simp: split_code_and_text_blocks_def split: sum.splits)
  from assms g obtain conf where c: "extract_file_config P rest = Inr conf"
    by (auto simp: split_code_and_text_blocks_def split: sum.splits)
  obtain bs pos ln where
    l: "blocks_loop rest (finditer_header 0 True rest) 0 lineno [(Text, doc, 1)] = (bs, pos, ln)"
    by (metis prod_cases3)
  from blocks_loop_appends [OF l] obtain new where
    new: "bs = [(Text, doc, 1)] @ new" "\<forall>b \<in> set new. strip (fst (snd b)) \<noteq> []" by blast
  have "blocks = (if strip (drop pos rest) \<noteq> [] then bs @ [(Code, drop pos rest, ln)] else bs)"
    using assms g c l by (simp add: split_code_and_text_blocks_def Let_def)
  then have "\<exists>more. blocks = (Text, doc, 1) # more \<and> (\<forall>b \<in> set more. strip (fst (snd b)) \<noteq> [])"
    using new by (cases "strip (drop pos rest) \<noteq> []") auto
  then show ?thesis using g by blast
qed

lemma parse_source_file_cases:
  assumes "fs filename = Some bytes"
  shows "(\<forall>content node. decode_utf8 P (crlf_to_lf bytes) = Some content
              \<and> ast_parse P (crlf_to_lf bytes) = Inr node
            \<longrightarrow> parse_source_file P fs filename = Inr (Some node, content))
       \<and> (\<forall>content m. decode_utf8 P (crlf_to_lf bytes) = Some content
              \<and> ast_parse P (crlf_to_lf bytes) = Inl (SyntaxError m)
            \<longrightarrow> parse_source_file P fs filename = Inr (None, content))
       \<and> (decode_utf8 P (crlf_to_lf bytes) = None
              \<and> (\<not> isl (ast_parse P (crlf_to_lf bytes))
                  \<or> (\<exists>m. ast_parse P (crlf_to_lf bytes) = Inl (SyntaxError m)))
            \<longrightarrow> parse_source_file P fs filename = Inl UnicodeDecodeError)"
  using assms
  by (auto simp: parse_source_file_def Let_def split: sum.splits)

text \<open>
  Claim C5, amended.  Take a file that can be read.  When its content is valid UTF-8:
  if \<^verbatim>\<open>ast.parse\<close> raises \<^verbatim>\<open>SyntaxError\<close>, \<^verbatim>\<open>get_docstring_and_rest\<close> does not fail, it
  returns the synthetic docstring, the decoded content of the file and line 1, and that
  docstring is the text of the first block of every result of
  \<^verbatim>\<open>split_code_and_text_blocks\<close>; if \<^verbatim>\<open>ast.parse\<close> returns a module,
  \<^verbatim>\<open>get_docstring_and_rest\<close> raises if and only if the module has no docstring or an empty
  one, and what it raises is the \<^verbatim>\<open>ValueError\<close> of the missing docstring.  When the content
  is not valid UTF-8, \<^verbatim>\<open>get_docstring_and_rest\<close> raises \<^verbatim>\<open>UnicodeDecodeError\<close>, whether
  \<^verbatim>\<open>ast.parse\<close> returns a node or raises \<^verbatim>\<open>SyntaxError\<close>.
\<close>

theorem get_docstring_and_rest_errors:
  "fs filename = Some bytes \<Longrightarrow>
     (\<forall>content. decode_utf8 P (crlf_to_lf bytes) = Some content \<longrightarrow>
        (\<forall>m. ast_parse P (crlf_to_lf bytes) = Inl (SyntaxError m) \<longrightarrow>
            get_docstring_and_rest P fs filename
              = Inr ([CHR 0x0A] @ ''SyntaxError'' @ [CHR 0x0A] @ ''==========='' @ [CHR 0x0A, CHR 0x0A]
                      @ ''Example script with invalid Python syntax'' @ [CHR 0x0A], content, 1)
          \<and> (\<forall>file_conf blocks.
                split_code_and_text_blocks P fs filename = Inr (file_conf, blocks)
                \<longrightarrow> (\<exists>more. blocks =
                       (Text, [CHR 0x0A] @ ''SyntaxError'' @ [CHR 0x0A] @ ''===========''
                          @ [CHR 0x0A, CHR 0x0A]
                          @ ''Example script with invalid Python syntax'' @ [CHR 0x0A], 1) # more)))
      \<and> (\<forall>d b. ast_parse P (crlf_to_lf bytes) = Inr (Module d b) \<longrightarrow>
            (isl (get_docstring_and_rest P fs filename)
               \<longleftrightarrow> module_docstring d b = None \<or> module_docstring d b = Some '''')
          \<and> ((\<exists>m. get_docstring_and_rest P fs filename = Inl (ValueError m))
               \<longleftrightarrow> module_docstring d b = None \<or> module_docstring d b = Some '''')))
   \<and> (decode_utf8 P (crlf_to_lf bytes) = None
        \<and> (\<not> isl (ast_parse P (crlf_to_lf bytes))
            \<or> (\<exists>m. ast_parse P (crlf_to_lf bytes) = Inl (SyntaxError m)))
      \<longrightarrow> get_docstring_and_rest P fs filename = Inl UnicodeDecodeError)"
proof -
  assume f: "fs filename = Some bytes"
  note p = parse_source_file_cases [where fs = fs and filename = filename and P = P, OF f]
  have lit: "[CHR 0x0A] @ ''SyntaxError'' @ [CHR 0x0A] @ ''==========='' @ [CHR 0x0A, CHR 0x0A]
      @ ''Example script with invalid Python syntax'' @ [CHR 0x0A] = SYNTAX_ERROR_DOCSTRING"
    by (simp add: SYNTAX_ERROR_DOCSTRING_def NL_def)
  have "get_docstring_and_rest P fs filename = Inr (SYNTAX_ERROR_DOCSTRING, content, 1)
          \<and> (\<forall>file_conf blocks.
                split_code_and_text_blocks P fs filename = Inr (file_conf, blocks)
                \<longrightarrow> (\<exists>more. blocks = (Text, SYNTAX_ERROR_DOCSTRING, 1) # more))"
    if c: "decode_utf8 P (crlf_to_lf bytes) = Some content"
      and a: "ast_parse P (crlf_to_lf bytes) = Inl (SyntaxError m)" for content m
  proof -
    have "parse_source_file P fs filename = Inr (None, content)" using p c a by blast
    then have g: "get_docstring_and_rest P fs filename = Inr (SYNTAX_ERROR_DOCSTRING, content, 1)"
      by (rule get_docstring_and_rest_syntax_error)
    have "\<exists>more. blocks = (Text, SYNTAX_ERROR_DOCSTRING, 1) # more"
      if "split_code_and_text_blocks P fs filename = Inr (file_conf, blocks)" for file_conf blocks
      using split_blocks_shape [OF that] g by auto
    then show ?thesis using g by blast
  qed
  moreover have "(isl (get_docstring_and_rest P fs filename)
               \<longleftrightarrow> module_docstring d b = None \<or> module_docstring d b = Some '''')
          \<and> ((\<exists>m. get_docstring_and_rest P fs filename = Inl (ValueError m))
               \<longleftrightarrow> module_docstring d b = None \<or> module_docstring d b = Some '''')"
    if c: "decode_utf8 P (crlf_to_lf bytes) = Some content"
      and a: "ast_parse P (crlf_to_lf bytes) = Inr (Module d b)" for content d b
  proof -
    have "parse_source_file P fs filename = Inr (Some (Module d b), content)" using p c a by blast
    from get_docstring_and_rest_module [OF this] show ?thesis by blast
  qed
  moreover have "get_docstring_and_rest P fs filename = Inl UnicodeDecodeError"
    if "decode_utf8 P (crlf_to_lf bytes) = None
        \<and> (\<not> isl (ast_parse P (crlf_to_lf bytes))
            \<or> (\<exists>m. ast_parse P (crlf_to_lf bytes) = Inl (SyntaxError m)))"
  proof -
    have "parse_source_file P fs filename = Inl UnicodeDecodeError" using p that by blast
    then show ?thesis by (simp add: get_docstring_and_rest_def)
  qed
  ultimately show ?thesis unfolding lit by blast
qed

lemma demo_sources:
  "demo_files ''plot_crlf.py'' = Some src_crlf"
  "demo_files ''plot_newline.py'' = Some src_newline"
  "decode_utf8 demo_python (crlf_to_lf src_crlf) = Some (''x = ('' @ [CHR 0x0A])"
  "decode_utf8 demo_python (crlf_to_lf src_newline) = Some src_newline"
  "ast_parse demo_python (crlf_to_lf src_crlf) = Inl (SyntaxError ''invalid syntax'')"
  "ast_parse demo_python (crlf_to_lf src_newline) = Inr (Module None (Some (''Title'', 1)))"
  by code_simp+

theorem get_docstring_and_rest_errors_witness:
  "get_docstring_and_rest demo_python demo_files ''plot_crlf.py''
     = Inr ([CHR 0x0A] @ ''SyntaxError'' @ [CHR 0x0A] @ ''==========='' @ [CHR 0x0A, CHR 0x0A]
              @ ''Example script with invalid Python syntax'' @ [CHR 0x0A],
            ''x = ('' @ [CHR 0x0A], 1)
   \<and> \<not> isl (get_docstring_and_rest demo_python demo_files ''plot_newline.py'')"
  using get_docstring_and_rest_errors [where fs = demo_files
          and filename = "''plot_crlf.py''" and P = demo_python, OF demo_sources(1)]
        get_docstring_and_rest_errors [where fs = demo_files
          and filename = "''plot_newline.py''" and P = demo_python, OF demo_sources(2)]
        demo_sources(3-6)
  by (simp add: module_docstring_def)

text \<open>
  The claim as written fails in three ways.  A file that is neither valid Python nor
  valid UTF-8: \<^verbatim>\<open>ast.parse\<close> raises \<^verbatim>\<open>SyntaxError\<close>, and \<^verbatim>\<open>get_docstring_and_rest\<close> raises
  from the \<^verbatim>\<open>decode\<close> in the handler instead of returning the synthetic docstring.  A file
  in Latin-1 that declares its encoding: it is valid Python and has a docstring, and
  \<^verbatim>\<open>get_docstring_and_rest\<close> raises from the \<^verbatim>\<open>decode\<close> after the parse.  A module whose
  first statement is the empty string literal: the source is valid and has a leading
  docstring statement, and \<^verbatim>\<open>get_docstring_and_rest\<close> raises all the same.
\<close>

theorem get_docstring_undecodable_counterexample:
  "ast_parse demo_python (crlf_to_lf src_bad_bytes) = Inl (SyntaxError ''(unicode error)'')
   \<and> get_docstring_and_rest demo_python demo_files ''plot_bad_bytes.py'' = Inl UnicodeDecodeError
   \<and> ast_parse demo_python (crlf_to_lf src_latin1)
     = Inr (Module None (Some (''Caf'' @ [CHR 0xE9], 2)))
   \<and> get_docstring_and_rest demo_python demo_files ''plot_latin1.py'' = Inl UnicodeDecodeError
   \<and> ast_parse demo_python (crlf_to_lf src_empty_doc) = Inr (Module None (Some ('''', 1)))
   \<and> get_docstring_and_rest demo_python demo_files ''plot_empty_doc.py''
     = Inl (ValueError ''Could not find docstring in file plot_empty_doc.py'')"
  by code_simp

text \<open>
  Claim C10, amended.  In every result of \<^verbatim>\<open>split_code_and_text_blocks\<close> the first block
  is a text block at line 1 whose content, the docstring, is not empty, and every later
  block has a character that is not whitespace.
\<close>

theorem split_blocks_nonblank:
  "split_code_and_text_blocks P fs source_file = Inr (file_conf, blocks) \<Longrightarrow>
     \<exists>doc more. blocks = (Text, doc, 1) # more \<and> doc \<noteq> ''''
       \<and> (\<forall>b \<in> set more. \<exists>c \<in> set (fst (snd b)). \<not> isspace c)"
proof -
  assume "split_code_and_text_blocks P fs source_file = Inr (file_conf, blocks)"
  from split_blocks_shape [OF this] obtain doc rest lineno more where
    g: "get_docstring_and_rest P fs source_file = Inr (doc, rest, lineno)"
    and b: "blocks = (Text, doc, 1) # more"
    and m: "\<forall>b \<in> set more. strip (fst (snd b)) \<noteq> []" by blast
  have "doc \<noteq> ''''" using g by (rule get_docstring_and_rest_nonempty)
  moreover have "\<forall>b \<in> set more. \<exists>c \<in> set (fst (snd b)). \<not> isspace c"
    using m strip_nonempty_iff by blast
  ultimately show ?thesis using b by blast
qed

lemma split_newline:
  "map_sum (\<lambda>e. e) snd (split_code_and_text_blocks demo_python demo_files ''plot_newline.py'')
   = Inr [(Text, ''Title'', 1), (Code, ''x = 1'' @ NL, 2), (Text, ''Some text'' @ NL, 4)]"
  by code_simp

theorem split_blocks_nonblank_witness:
  "\<exists>doc more. [(Text, ''Title'', 1), (Code, ''x = 1'' @ NL, 2), (Text, ''Some text'' @ NL, 4)]
        = (Text, doc, Suc 0) # more \<and> doc \<noteq> ''''
       \<and> (\<forall>b \<in> set more. \<exists>c \<in> set (fst (snd b)). \<not> isspace c)"
proof -
  obtain file_conf where
    "split_code_and_text_blocks demo_python demo_files ''plot_newline.py''
       = Inr (file_conf, [(Text, ''Title'', 1), (Code, ''x = 1'' @ NL, 2), (Text, ''Some text'' @ NL, 4)])"
    using split_newline
    by (cases "split_code_and_text_blocks demo_python demo_files ''plot_newline.py''") auto
  from split_blocks_nonblank [OF this] show ?thesis by simp
qed

text \<open>
  The claim as written fails for a docstring of blanks: \<^verbatim>\<open>if not docstring\<close> lets it
  pass, and the first block has no character that is not whitespace.
\<close>

theorem split_blank_docstring_counterexample:
  "map_sum (\<lambda>e. e) snd (split_code_and_text_blocks demo_python demo_files ''plot_blank_doc.py'')
     = Inr [(Text, ''  '', 1), (Code, ''x = 1'' @ NL, 2)]
   \<and> strip ''  '' = ''''"
  by code_simp

text \<open>
  Claim C4 at two concrete files.  Both consist of a docstring, code and one trailing
  section header with a comment line.  In the first the comment line
  \<^verbatim>\<open># Some text\<close> ends the file without a newline: the pattern requires a whitespace
  character after each comment line, the match ends after \<^verbatim>\<open># Some \<close>, and the result
  has four blocks, the last one the code block \<^verbatim>\<open>text\<close>.  The second holds a directive
  with an invalid value and yields no blocks at all.
\<close>

theorem split_no_final_newline:
  "map_sum (\<lambda>e. e) snd (split_code_and_text_blocks demo_python demo_files ''plot_no_newline.py'')
     = Inr [(Text, ''Title'', 1), (Code, ''x = 1'' @ NL, 2), (Text, ''Some '', 4), (Code, ''text'', 4)]
   \<and> map_sum (\<lambda>e. e) snd (split_code_and_text_blocks demo_python demo_files ''plot_bad_option.py'')
     = Inl (NameError ''logger'')"
  by code_simp

section \<open>Generating one example: \<^verbatim>\<open>generate_file_rst\<close> (gen_rst.py)\<close>


























section \<open>Properties of \<^verbatim>\<open>generate_file_rst\<close>\<close>

text \<open>
  Event lists without a write of the sidecar, without a failure of a block (an exception
  leaving it, a warning about it), and without either.
\<close>

definition quiet :: "event list \<Rightarrow> bool" where
  "quiet evs = (list_all (\<lambda>e. case e of WriteMd5 p c \<Rightarrow> False | Warning m \<Rightarrow> False
                                | BlockRaised c l \<Rightarrow> False | _ \<Rightarrow> True) evs)"

definition no_md5 :: "event list \<Rightarrow> bool" where
  "no_md5 evs = (list_all (\<lambda>e. case e of WriteMd5 p c \<Rightarrow> False | _ \<Rightarrow> True) evs)"

definition no_failure :: "event list \<Rightarrow> bool" where
  "no_failure evs = (list_all (\<lambda>e. case e of Warning m \<Rightarrow> False | BlockRaised c l \<Rightarrow> False
                                     | _ \<Rightarrow> True) evs)"


lemma no_md5_append [simp]: "no_md5 (a @ b) \<longleftrightarrow> no_md5 a \<and> no_md5 b"
  by (simp add: no_md5_def)

lemma no_failure_append [simp]: "no_failure (a @ b) \<longleftrightarrow> no_failure a \<and> no_failure b"
  by (simp add: no_failure_def)


lemma quiet_Nil [simp]: "quiet []" and no_md5_Nil [simp]: "no_md5 []"
  by (simp_all add: quiet_def no_md5_def)





































end
